(* ===== verification/Construct_Tree.thy ===== *)
theory Construct_Tree
  imports Prelude "HOL-Library.Sublist"
begin

text \<open>
  The construct tree of the \<open>constructs\<close> library, which every \<open>new X(scope, id, ...)\<close>
  in \<open>src/lib/us-region-stack.ts\<close> extends. The library is not part of the repository; this
  theory models the behaviour of its \<open>Node\<close> class that the stack relies on:
  \<^item> a construct is addressed by the path of ids from the root (the \<open>App\<close>);
  \<^item> the constructor of \<open>Node\<close> sanitises the id (every \<open>/\<close> becomes \<open>--\<close>), refuses an
    empty id below the root, and \<open>addChild\<close> refuses an id that the scope already has;
  \<^item> \<open>node.findAll()\<close> returns the construct and all its descendants.
  The tree is an association list from paths to node payloads, in creation order; the
  payload type \<open>'n\<close> is left open, so that the stack theory chooses what a node holds.
  The main lemmas: adding a child keeps the tree well formed, the new child is found at its
  path and nothing else changes, and adding the same id twice to a scope throws.
\<close>

type_synonym 'n ctree = "(cpath \<times> 'n) list"

datatype tree_error =
    EmptyId
  | DuplicateId cpath cid
  | NoScope cpath

fun sanitize_id :: "string \<Rightarrow> string" where
  "sanitize_id [] = []"
| "sanitize_id (c # cs) =
     (if c = CHR ''/'' then CHR ''-'' # CHR ''-'' # sanitize_id cs else c # sanitize_id cs)"

definition paths :: "'n ctree \<Rightarrow> cpath list" where
  "paths t = map fst t"

definition lookup :: "'n ctree \<Rightarrow> cpath \<Rightarrow> 'n option" where
  "lookup t p = map_of t p"

text \<open>\<open>new App()\<close>: a tree with the root construct only.\<close>

definition root_tree :: "'n \<Rightarrow> 'n ctree" where
  "root_tree n = [([], n)]"

text \<open>
  \<open>new Node(host, scope, id)\<close> followed by \<open>scope.node.addChild(host, id)\<close>. The first
  guard is the model's: in TypeScript a scope is an object of the tree by construction.
\<close>

definition add_child :: "'n ctree \<Rightarrow> cpath \<Rightarrow> string \<Rightarrow> 'n \<Rightarrow> tree_error + (cpath \<times> 'n ctree)" where
  "add_child t scope nid n =
     (let c = sanitize_id nid in
      if lookup t scope = None then Inl (NoScope scope)
      else if c = [] then Inl EmptyId
      else if lookup t (scope @ [c]) \<noteq> None then Inl (DuplicateId scope c)
      else Inr (scope @ [c], t @ [(scope @ [c], n)]))"

text \<open>Changing what a construct holds (metadata, a cached child reference) in place.\<close>

definition update_node :: "'n ctree \<Rightarrow> cpath \<Rightarrow> ('n \<Rightarrow> 'n) \<Rightarrow> 'n ctree" where
  "update_node t p f = map (\<lambda>(q, n). (q, if q = p then f n else n)) t"

text \<open>\<open>node.findAll()\<close>: the construct at \<open>p\<close> and its descendants.\<close>

definition find_all :: "'n ctree \<Rightarrow> cpath \<Rightarrow> cpath list" where
  "find_all t p = filter (prefix p) (paths t)"

definition ctree_wf :: "'n ctree \<Rightarrow> bool" where
  "ctree_wf t \<longleftrightarrow> distinct (paths t) \<and> [] \<in> set (paths t) \<and>
     (\<forall>p \<in> set (paths t). p \<noteq> [] \<longrightarrow> butlast p \<in> set (paths t) \<and> last p \<noteq> [])"

text \<open>
  Appending the paths \<open>ps\<close>, in order, to a tree with paths \<open>P\<close> keeps it well formed:
  each is new, has its parent already, and ends in a non-empty id.
\<close>

fun wf_extension :: "cpath list \<Rightarrow> cpath list \<Rightarrow> bool" where
  "wf_extension P [] = True"
| "wf_extension P (p # ps) \<longleftrightarrow>
     p \<notin> set P \<and> p \<noteq> [] \<and> butlast p \<in> set P \<and> last p \<noteq> [] \<and> wf_extension (P @ [p]) ps"

subsection \<open>Ids\<close>

lemma sanitize_id_append [simp]: "sanitize_id (xs @ ys) = sanitize_id xs @ sanitize_id ys"
  by (induction xs) auto

lemma sanitize_id_Nil_iff [simp]: "sanitize_id s = [] \<longleftrightarrow> s = []"
  by (cases s) auto

lemma sanitize_id_no_slash [simp]: "CHR ''/'' \<notin> set (sanitize_id s)"
  by (induction s) auto

lemma sanitize_id_ident: "CHR ''/'' \<notin> set s \<Longrightarrow> sanitize_id s = s"
  by (induction s) auto

subsection \<open>Lookup and paths\<close>

lemma lookup_None_iff: "lookup t p = None \<longleftrightarrow> p \<notin> set (paths t)"
  by (simp add: lookup_def paths_def map_of_None_iff)

lemma lookup_root_tree [tree_simps]: "lookup (root_tree n) p = (if p = [] then Some n else None)"
  by (simp add: lookup_def root_tree_def)

lemma paths_root_tree [simp]: "paths (root_tree n) = [[]]"
  by (simp add: paths_def root_tree_def)

lemma root_tree_wf: "ctree_wf (root_tree n)"
  by (simp add: ctree_wf_def root_tree_def paths_def)

lemma add_child_Inr_iff:
  "add_child t scope nid n = Inr (p, t') \<longleftrightarrow>
     lookup t scope \<noteq> None \<and> nid \<noteq> [] \<and> lookup t (scope @ [sanitize_id nid]) = None \<and>
     p = scope @ [sanitize_id nid] \<and> t' = t @ [(p, n)]"
  by (auto simp add: add_child_def Let_def)

lemma add_child_Inl_iff:
  "(\<exists>e. add_child t scope nid n = Inl e) \<longleftrightarrow>
     lookup t scope = None \<or> nid = [] \<or> lookup t (scope @ [sanitize_id nid]) \<noteq> None"
  by (auto simp add: add_child_def Let_def)

lemma add_child_duplicate:
  assumes "lookup t scope \<noteq> None" and "nid \<noteq> []" and "lookup t (scope @ [sanitize_id nid]) \<noteq> None"
  shows "add_child t scope nid n = Inl (DuplicateId scope (sanitize_id nid))"
  using assms by (simp add: add_child_def Let_def)

lemma add_child_paths:
  "add_child t scope nid n = Inr (p, t') \<Longrightarrow> paths t' = paths t @ [p]"
  by (auto simp add: add_child_Inr_iff paths_def)

lemma add_child_lookup:
  assumes "add_child t scope nid n = Inr (p, t')"
  shows "lookup t' q = (if q = p then Some n else lookup t q)"
proof -
  from assms have t': "t' = t @ [(p, n)]" and fresh: "map_of t p = None"
    by (auto simp add: add_child_Inr_iff lookup_def)
  show ?thesis
    by (cases "map_of t q") (auto simp add: t' fresh lookup_def map_add_def)
qed

lemma add_child_parent:
  "add_child t scope nid n = Inr (p, t') \<Longrightarrow> butlast p = scope \<and> lookup t scope \<noteq> None"
  by (auto simp add: add_child_Inr_iff)

lemma add_child_wf:
  assumes wf: "ctree_wf t" and add: "add_child t scope nid n = Inr (p, t')"
  shows "ctree_wf t'"
proof -
  from add have p: "p = scope @ [sanitize_id nid]" and fresh: "p \<notin> set (paths t)"
    and sc: "scope \<in> set (paths t)" and nonempty: "nid \<noteq> []"
    by (auto simp add: add_child_Inr_iff lookup_None_iff)
  have paths': "paths t' = paths t @ [p]" using add by (rule add_child_paths)
  from wf fresh have "distinct (paths t')" by (simp add: paths' ctree_wf_def)
  moreover from wf have "[] \<in> set (paths t')" by (simp add: paths' ctree_wf_def)
  moreover have "butlast q \<in> set (paths t') \<and> last q \<noteq> []"
    if "q \<in> set (paths t')" "q \<noteq> []" for q
    using that wf sc nonempty by (auto simp add: paths' p ctree_wf_def)
  ultimately show ?thesis by (simp add: ctree_wf_def)
qed

text \<open>C12. Adding a construct with an id its scope already has throws the duplicate-id error,
  whatever construct is added the second time.\<close>

lemma add_child_twice:
  assumes add: "add_child t scope nid n = Inr (p, t')"
  shows "add_child t' scope nid m = Inl (DuplicateId scope (sanitize_id nid))"
proof (rule add_child_duplicate)
  from add have p: "p = scope @ [sanitize_id nid]" and sc: "lookup t scope \<noteq> None"
    and ne: "nid \<noteq> []"
    by (simp_all add: add_child_Inr_iff)
  show "nid \<noteq> []" by (rule ne)
  show "lookup t' scope \<noteq> None"
    using sc add_child_lookup [OF add, of scope] by simp
  show "lookup t' (scope @ [sanitize_id nid]) \<noteq> None"
    using add_child_lookup [OF add, of p] p by simp
qed

lemma add_child_fresh:
  assumes "lookup t scope \<noteq> None" and "nid \<noteq> []"
    and "scope @ [sanitize_id nid] \<notin> set (paths t)"
  shows "add_child t scope nid n = Inr (scope @ [sanitize_id nid], t @ [(scope @ [sanitize_id nid], n)])"
  using assms by (simp add: add_child_Inr_iff lookup_None_iff)

lemma lookup_append [tree_simps]:
  "lookup (t @ xs) q = (case lookup t q of None \<Rightarrow> map_of xs q | Some n \<Rightarrow> Some n)"
  by (simp add: lookup_def map_add_def split: option.splits)

lemma paths_append [tree_simps]: "paths (t @ xs) = paths t @ map fst xs"
  by (simp add: paths_def)

subsection \<open>Well-formed trees are closed under prefixes\<close>

lemma ctree_wf_butlast:
  "ctree_wf t \<Longrightarrow> q \<in> set (paths t) \<Longrightarrow> q \<noteq> [] \<Longrightarrow> butlast q \<in> set (paths t)"
  by (simp add: ctree_wf_def)

lemma ctree_wf_prefix_closed:
  assumes wf: "ctree_wf t"
  shows "q \<in> set (paths t) \<Longrightarrow> prefix p q \<Longrightarrow> p \<in> set (paths t)"
proof (induction q rule: rev_induct)
  case Nil
  then show ?case by simp
next
  case (snoc x xs)
  show ?case
  proof (cases "p = xs @ [x]")
    case True
    with snoc.prems show ?thesis by simp
  next
    case False
    have "xs \<in> set (paths t)"
      using ctree_wf_butlast [OF wf snoc.prems(1)] by simp
    moreover from False snoc.prems(2) have "prefix p xs" by simp
    ultimately show ?thesis by (rule snoc.IH)
  qed
qed

lemma ctree_wf_fresh_below:
  "ctree_wf t \<Longrightarrow> p \<notin> set (paths t) \<Longrightarrow> q \<notin> set (paths t) \<or> \<not> prefix p q"
  using ctree_wf_prefix_closed by blast

subsection \<open>Updates in place\<close>

lemma paths_update_node [simp]: "paths (update_node t p f) = paths t"
  by (induction t) (auto simp add: update_node_def paths_def)

lemma lookup_update_node [tree_simps]:
  "lookup (update_node t p f) q = (if q = p then map_option f (lookup t q) else lookup t q)"
  by (simp add: update_node_def lookup_def map_of_map_snd option.map_ident)

lemma update_node_wf: "ctree_wf t \<Longrightarrow> ctree_wf (update_node t p f)"
  by (simp add: ctree_wf_def)

lemma set_find_all: "set (find_all t p) = {q \<in> set (paths t). prefix p q}"
  by (auto simp add: find_all_def)

lemma find_all_append [tree_simps]: "find_all (t @ xs) p = find_all t p @ filter (prefix p) (map fst xs)"
  by (simp add: find_all_def paths_def)

lemma find_all_fresh:
  "ctree_wf t \<Longrightarrow> p \<notin> set (paths t) \<Longrightarrow> find_all t p = []"
  using ctree_wf_prefix_closed by (fastforce simp add: find_all_def filter_empty_conv)

lemma update_node_append [tree_simps]:
  "update_node (t @ xs) p f = update_node t p f @ update_node xs p f"
  by (simp add: update_node_def)

lemma update_node_Nil [tree_simps]: "update_node [] p f = []"
  by (simp add: update_node_def)

lemma update_node_Cons [tree_simps]:
  "update_node ((q, n) # xs) p f = (q, if q = p then f n else n) # update_node xs p f"
  by (simp add: update_node_def)

lemma update_node_fresh: "p \<notin> set (paths t) \<Longrightarrow> update_node t p f = t"
  by (induction t) (auto simp add: update_node_def paths_def)

lemma find_all_self: "p \<in> set (paths t) \<Longrightarrow> p \<in> set (find_all t p)"
  by (simp add: set_find_all)

theorem add_child_twice_witness:
  "add_child [([], 0::nat)] [] ''App'' 1 = Inr ([''App''], [([], 0), ([''App''], 1)]) \<and>
   add_child [([], 0::nat), ([''App''], 1)] [] ''App'' 2 = Inl (DuplicateId [] ''App'')"
proof -
  have a: "add_child [([], 0::nat)] [] ''App'' 1 = Inr ([''App''], [([], 0), ([''App''], 1)])"
    by (simp add: add_child_def lookup_def Let_def)
  from add_child_twice [OF a, of 2] a show ?thesis by simp
qed

lemma ctree_wf_snoc:
  assumes "ctree_wf t" and "p \<notin> set (paths t)" and "p \<noteq> []" and "butlast p \<in> set (paths t)"
    and "last p \<noteq> []"
  shows "ctree_wf (t @ [(p, n)])"
  using assms by (auto simp add: ctree_wf_def paths_append)

lemma ctree_wf_append_extension:
  "ctree_wf t \<Longrightarrow> wf_extension (paths t) (map fst xs) \<Longrightarrow> ctree_wf (t @ xs)"
proof (induction xs arbitrary: t)
  case Nil
  then show ?case by simp
next
  case (Cons x xs)
  obtain p n where x: "x = (p, n)" by (cases x)
  have "ctree_wf (t @ [(p, n)])" using Cons.prems x by (intro ctree_wf_snoc) auto
  moreover have "wf_extension (paths (t @ [(p, n)])) (map fst xs)" using Cons.prems x by (simp add: paths_append)
  ultimately show ?case using Cons.IH [of "t @ [(p, n)]"] x by simp
qed

end
