(* ===== verification/Resources.thy ===== *)
theory Resources
  imports Construct_Tree
begin

text \<open>
  The vocabulary that the components agree on: the props objects that
  \<open>src/lib/us-region-stack.ts\<close> passes to \<open>Waf\<close>, \<open>Role\<close>, \<open>NodejsFunction\<close> and
  \<open>NagSuppressions\<close>, what each construct holds once created (the payload \<open>resource\<close> of a
  construct-tree node, with the \<open>cdk_nag\<close> metadata beside it), and the exceptions the
  constructor can propagate. A level-2 construct (\<open>Role\<close>, \<open>Function\<close>, \<open>Version\<close>) is a
  node holding its props with a level-1 child \<open>Resource\<close> holding the CloudFormation
  properties it synthesises, as in \<open>aws-cdk-lib\<close>. A function also holds its code
  asset: \<open>code.bind(this)\<close> creates the construct \<open>Code\<close> (an \<open>Asset\<close>) with its
  staging child \<open>Stage\<close>. A stack holds its name and the region of \<open>props.env\<close>.
\<close>

datatype cdk_error =
    TreeError tree_error
  | InvalidStackName string
  | NotNodeRuntime
  | NotJsEntry string
  | NotWholeSeconds
  | EmptyConstructArray
  | NotAFunction cpath
  | AmbiguousDefaultChild cpath
  | InvalidSuppression cpath

subsection \<open>IAM (\<open>aws-cdk-lib/aws-iam\<close>)\<close>

datatype principal =
    ServicePrincipal string
  | CompositePrincipal "principal list"

text \<open>\<open>ManagedPolicy.fromAwsManagedPolicyName(name)\<close>: a reference, not a construct.\<close>

record managed_policy =
  managedPolicyName :: string

record role_props =
  assumedBy :: principal
  managedPolicies :: "managed_policy list"

subsection \<open>Lambda (\<open>aws-cdk-lib/aws-lambda\<close>, \<open>aws-lambda-nodejs\<close>)\<close>

datatype runtime_family = NODEJS | PYTHON

datatype runtime = NODEJS_18_X | NODEJS_20_X | NODEJS_22_X | PYTHON_3_12

datatype time_unit = Milliseconds | Seconds | Minutes

text \<open>\<open>cdk.Duration\<close>: an amount and its unit.\<close>

datatype duration = Duration nat time_unit

record nodejs_function_props =
  runtime :: runtime
  entry :: string
  handler :: string
  awsSdkConnectionReuse :: bool
  memorySize :: nat
  timeout :: duration
  role :: cpath

text \<open>The properties of the synthesised \<open>AWS::Lambda::Function\<close>.\<close>

record cfn_function =
  cfnRuntime :: string
  cfnHandler :: string
  cfnMemorySize :: nat
  cfnTimeout :: nat
  cfnRole :: cpath
  cfnEnvironment :: "(string \<times> string) list"

subsection \<open>WAF (\<open>./constructs/waf\<close>)\<close>

record waf_props =
  allowedIps :: "string list"
  useCloudFront :: bool

datatype waf_scope = CLOUDFRONT | REGIONAL

datatype waf_action = Allow | Block

subsection \<open>cdk-nag\<close>

text \<open>\<open>NagPackSuppression\<close>: the rule id and the justification.\<close>

record nag_pack_suppression =
  ruleId :: string
  reason :: string

subsection \<open>Construct-tree nodes\<close>

datatype resource =
    AppR
  | StackR "string option" "string option"
  | WafR waf_props
  | CfnIPSetR waf_scope "string list"
  | CfnWebACLR waf_scope waf_action cpath
  | RoleR role_props
  | CfnRoleR "string list" "string list"
  | FunctionR nodejs_function_props "cpath option"
  | AssetR string
  | AssetStagingR
  | CfnFunctionR cfn_function
  | VersionR cpath
  | CfnVersionR cpath

record cnode =
  res :: resource
  nagMetadata :: "nag_pack_suppression list"

type_synonym ctree_c = "cnode ctree"

fun is_cfn_resource :: "resource \<Rightarrow> bool" where
  "is_cfn_resource (CfnIPSetR _ _) = True"
| "is_cfn_resource (CfnWebACLR _ _ _) = True"
| "is_cfn_resource (CfnRoleR _ _) = True"
| "is_cfn_resource (CfnFunctionR _) = True"
| "is_cfn_resource (CfnVersionR _) = True"
| "is_cfn_resource _ = False"

definition mk_node :: "resource \<Rightarrow> cnode" where
  "mk_node r = \<lparr>res = r, nagMetadata = []\<rparr>"

text \<open>\<open>new C(scope, id, ...)\<close> for a construct that holds \<open>r\<close>.\<close>

definition new_construct :: "ctree_c \<Rightarrow> cpath \<Rightarrow> string \<Rightarrow> resource \<Rightarrow> cdk_error + (cpath \<times> ctree_c)" where
  "new_construct t scope nid r = map_sum TreeError id (add_child t scope nid (mk_node r))"

text \<open>
  A level-2 construct and its level-1 child \<open>Resource\<close>, whose properties may mention the
  level-2 construct's path.
\<close>

definition new_l2 :: "ctree_c \<Rightarrow> cpath \<Rightarrow> string \<Rightarrow> resource \<Rightarrow> (cpath \<Rightarrow> resource) \<Rightarrow> cdk_error + (cpath \<times> ctree_c)" where
  "new_l2 t scope nid r l1 =
     bindE (new_construct t scope nid r) (\<lambda>(p, t1).
     bindE (new_construct t1 p ''Resource'' (l1 p)) (\<lambda>(_, t2). Inr (p, t2)))"

definition res_at :: "ctree_c \<Rightarrow> cpath \<Rightarrow> resource option" where
  "res_at t p = map_option res (lookup t p)"

subsection \<open>Lemmas\<close>

lemma new_construct_Inr_iff:
  "new_construct t scope nid r = Inr (p, t') \<longleftrightarrow> add_child t scope nid (mk_node r) = Inr (p, t')"
  by (cases "add_child t scope nid (mk_node r)") (auto simp add: new_construct_def)

lemma new_construct_Inl_iff:
  "new_construct t scope nid r = Inl e \<longleftrightarrow> (\<exists>e'. e = TreeError e' \<and> add_child t scope nid (mk_node r) = Inl e')"
  by (cases "add_child t scope nid (mk_node r)") (auto simp add: new_construct_def)

lemma new_construct_wf:
  "ctree_wf t \<Longrightarrow> new_construct t scope nid r = Inr (p, t') \<Longrightarrow> ctree_wf t'"
  by (simp add: new_construct_Inr_iff add_child_wf)

lemma new_construct_res_at:
  "new_construct t scope nid r = Inr (p, t') \<Longrightarrow> res_at t' q = (if q = p then Some r else res_at t q)"
  by (simp add: new_construct_Inr_iff res_at_def add_child_lookup mk_node_def)

lemma new_construct_path:
  "new_construct t scope nid r = Inr (p, t') \<Longrightarrow> p = scope @ [sanitize_id nid] \<and> p \<notin> set (paths t) \<and> scope \<in> set (paths t)"
  by (auto simp add: new_construct_Inr_iff add_child_Inr_iff lookup_None_iff)

lemma new_construct_paths:
  "new_construct t scope nid r = Inr (p, t') \<Longrightarrow> paths t' = paths t @ [p]"
  by (simp add: new_construct_Inr_iff add_child_paths)

lemma new_construct_lookup:
  "new_construct t scope nid r = Inr (p, t') \<Longrightarrow> lookup t' q = (if q = p then Some (mk_node r) else lookup t q)"
  by (simp add: new_construct_Inr_iff add_child_lookup)

lemma new_l2_Inr_iff:
  "new_l2 t scope nid r l1 = Inr (p, t') \<longleftrightarrow>
     (\<exists>t1 q. new_construct t scope nid r = Inr (p, t1) \<and> new_construct t1 p ''Resource'' (l1 p) = Inr (q, t'))"
  by (auto simp add: new_l2_def split: prod.splits)

lemma new_l2_wf:
  "ctree_wf t \<Longrightarrow> new_l2 t scope nid r l1 = Inr (p, t') \<Longrightarrow> ctree_wf t'"
  by (auto simp add: new_l2_Inr_iff intro: new_construct_wf)

lemma new_l2_res_at:
  assumes "new_l2 t scope nid r l1 = Inr (p, t')"
  shows "res_at t' q =
    (if q = p @ [''Resource''] then Some (l1 p) else if q = p then Some r else res_at t q)"
proof -
  from assms obtain t1 q' where a: "new_construct t scope nid r = Inr (p, t1)"
    and b: "new_construct t1 p ''Resource'' (l1 p) = Inr (q', t')"
    by (auto simp add: new_l2_Inr_iff)
  from new_construct_path [OF b] have q': "q' = p @ [''Resource'']" by simp
  show ?thesis
    using new_construct_res_at [OF a] new_construct_res_at [OF b] q' by simp
qed

lemma new_l2_paths:
  assumes "new_l2 t scope nid r l1 = Inr (p, t')"
  shows "paths t' = paths t @ [p, p @ [''Resource'']] \<and> p = scope @ [sanitize_id nid] \<and> p \<notin> set (paths t)"
proof -
  from assms obtain t1 q' where a: "new_construct t scope nid r = Inr (p, t1)"
    and b: "new_construct t1 p ''Resource'' (l1 p) = Inr (q', t')"
    by (auto simp add: new_l2_Inr_iff)
  from new_construct_path [OF b] have q': "q' = p @ [''Resource'']" by simp
  show ?thesis
    using new_construct_paths [OF a] new_construct_paths [OF b] new_construct_path [OF a] q' by auto
qed

lemma new_construct_fresh:
  assumes "scope \<in> set (paths t)" and "nid \<noteq> []"
    and "scope @ [sanitize_id nid] \<notin> set (paths t)"
  shows "new_construct t scope nid r =
    Inr (scope @ [sanitize_id nid], t @ [(scope @ [sanitize_id nid], mk_node r)])"
  using assms add_child_fresh [of t scope nid "mk_node r"]
  by (simp add: new_construct_def lookup_None_iff)

lemma new_l2_fresh:
  assumes "scope \<in> set (paths t)" and "nid \<noteq> []"
    and "scope @ [sanitize_id nid] \<notin> set (paths t)"
    and "scope @ [sanitize_id nid, ''Resource''] \<notin> set (paths t)"
  shows "new_l2 t scope nid r l1 =
    Inr (scope @ [sanitize_id nid],
         t @ [(scope @ [sanitize_id nid], mk_node r),
              (scope @ [sanitize_id nid, ''Resource''], mk_node (l1 (scope @ [sanitize_id nid])))])"
proof -
  let ?p = "scope @ [sanitize_id nid]"
  have a: "new_construct t scope nid r = Inr (?p, t @ [(?p, mk_node r)])"
    using assms(1-3) by (rule new_construct_fresh)
  have b: "new_construct (t @ [(?p, mk_node r)]) ?p ''Resource'' (l1 ?p) =
    Inr (?p @ [''Resource''], t @ [(?p, mk_node r), (?p @ [''Resource''], mk_node (l1 ?p))])"
    using new_construct_fresh [of ?p "t @ [(?p, mk_node r)]" "''Resource''" "l1 ?p"] assms(4)
    by (simp add: paths_append)
  show ?thesis by (simp add: new_l2_def a b)
qed

text \<open>In a well-formed tree the \<open>Resource\<close> child of a construct just created is fresh.\<close>

lemma new_construct_child_fresh:
  assumes wf: "ctree_wf t" and c: "new_construct t scope nid r = Inr (p, t1)"
  shows "new_construct t1 p ''Resource'' r' = Inr (p @ [''Resource''], t1 @ [(p @ [''Resource''], mk_node r')])"
proof -
  have fresh: "p \<notin> set (paths t)" using new_construct_path [OF c] by blast
  from ctree_wf_fresh_below [OF wf fresh, of "p @ [''Resource'']"]
  have "p @ [''Resource''] \<notin> set (paths t)" by simp
  then show ?thesis
    using new_construct_fresh [of p t1 "''Resource''" r'] new_construct_paths [OF c] by simp
qed

end
