(* ===== verification/Iam.thy ===== *)
theory Iam
  imports Resources
begin

text \<open>
  \<open>new Role(scope, id, {assumedBy, managedPolicies})\<close> of \<open>aws-cdk-lib/aws-iam\<close>: the
  \<open>Role\<close> construct and its \<open>AWS::IAM::Role\<close> child. The trust policy lists the service
  principals of \<open>assumedBy\<close> (a \<open>CompositePrincipal\<close> contributes those of its parts, in
  order); \<open>ManagedPolicy.fromAwsManagedPolicyName(n)\<close> becomes the ARN
  \<open>arn:${AWS::Partition}:iam::aws:policy/n\<close>. \<open>can_assume\<close> is what the trust policy
  grants: a service may assume the role iff it is one of the listed principals.
\<close>

fun principal_services :: "principal \<Rightarrow> string list" where
  "principal_services (ServicePrincipal s) = [s]"
| "principal_services (CompositePrincipal ps) = concat (map principal_services ps)"

definition partition_token :: string where
  "partition_token = ''${AWS::Partition}''"

definition aws_policy_prefix :: string where
  "aws_policy_prefix = ''arn:'' @ partition_token @ '':iam::aws:policy/''"

definition aws_managed_policy_arn :: "managed_policy \<Rightarrow> string" where
  "aws_managed_policy_arn mp = aws_policy_prefix @ managedPolicyName mp"

definition is_aws_managed_arn :: "string \<Rightarrow> bool" where
  "is_aws_managed_arn arn \<longleftrightarrow> prefix aws_policy_prefix arn"

definition cfn_role_of :: "role_props \<Rightarrow> resource" where
  "cfn_role_of props =
     CfnRoleR (principal_services (assumedBy props)) (map aws_managed_policy_arn (managedPolicies props))"

definition role_new :: "ctree_c \<Rightarrow> cpath \<Rightarrow> string \<Rightarrow> role_props \<Rightarrow> cdk_error + (cpath \<times> ctree_c)" where
  "role_new t scope nid props = new_l2 t scope nid (RoleR props) (\<lambda>_. cfn_role_of props)"

fun can_assume :: "resource \<Rightarrow> string \<Rightarrow> bool" where
  "can_assume (CfnRoleR svcs _) s \<longleftrightarrow> s \<in> set svcs"
| "can_assume _ s \<longleftrightarrow> False"

fun role_policy_arns :: "resource \<Rightarrow> string list" where
  "role_policy_arns (CfnRoleR _ arns) = arns"
| "role_policy_arns _ = []"

subsection \<open>Lemmas\<close>

lemma principal_services_composite_services [simp]:
  "principal_services (CompositePrincipal (map ServicePrincipal ss)) = ss"
  by (induction ss) auto

lemma is_aws_managed_arn_policy [simp]: "is_aws_managed_arn (aws_managed_policy_arn mp)"
  by (simp add: is_aws_managed_arn_def aws_managed_policy_arn_def)

lemma aws_managed_policy_arn_inj: "aws_managed_policy_arn a = aws_managed_policy_arn b \<longleftrightarrow> a = b"
  by (cases a, cases b) (simp add: aws_managed_policy_arn_def)

lemma can_assume_cfn_role_of [simp]:
  "can_assume (cfn_role_of props) s \<longleftrightarrow> s \<in> set (principal_services (assumedBy props))"
  by (simp add: cfn_role_of_def)

lemma is_cfn_resource_cfn_role_of [simp]: "is_cfn_resource (cfn_role_of props)"
  by (simp add: cfn_role_of_def)

lemma role_policy_arns_cfn_role_of [simp]:
  "role_policy_arns (cfn_role_of props) = map aws_managed_policy_arn (managedPolicies props)"
  by (simp add: cfn_role_of_def)

lemma role_new_res_at:
  "role_new t scope nid props = Inr (p, t') \<Longrightarrow>
     res_at t' q = (if q = p @ [''Resource''] then Some (cfn_role_of props)
                    else if q = p then Some (RoleR props) else res_at t q)"
  unfolding role_new_def by (rule new_l2_res_at)

lemma role_new_wf: "ctree_wf t \<Longrightarrow> role_new t scope nid props = Inr (p, t') \<Longrightarrow> ctree_wf t'"
  unfolding role_new_def by (rule new_l2_wf)

lemma role_new_paths:
  "role_new t scope nid props = Inr (p, t') \<Longrightarrow>
     paths t' = paths t @ [p, p @ [''Resource'']] \<and> p = scope @ [sanitize_id nid] \<and> p \<notin> set (paths t)"
  unfolding role_new_def by (rule new_l2_paths)

lemma role_new_fresh:
  assumes "scope \<in> set (paths t)" and "nid \<noteq> []"
    and "scope @ [sanitize_id nid] \<notin> set (paths t)"
    and "scope @ [sanitize_id nid, ''Resource''] \<notin> set (paths t)"
  shows "role_new t scope nid props =
    Inr (scope @ [sanitize_id nid],
         t @ [(scope @ [sanitize_id nid], mk_node (RoleR props)),
              (scope @ [sanitize_id nid, ''Resource''], mk_node (cfn_role_of props))])"
  unfolding role_new_def using assms by (rule new_l2_fresh)

end
