(* ===== verification/Nag.thy ===== *)
theory Nag
  imports Iam
begin

text \<open>
  \<open>NagSuppressions.addResourceSuppressions(constructs, suppressions, applyToChildren)\<close>
  of cdk-nag, and the check of rule \<open>AwsSolutions-IAM4\<close> that the suppressions are meant
  to silence.
  \<^item> An empty array of constructs throws.
  \<^item> Each construct, or with \<open>applyToChildren\<close> each construct of its \<open>node.findAll()\<close>,
    is replaced by its \<open>node.defaultChild\<close> if it has one (the child \<open>Resource\<close> or
    \<open>Default\<close>; both at once throw); if that is a CloudFormation resource, its \<open>cdk_nag\<close>
    metadata becomes the old rules followed by the new ones, duplicates removed with the
    first occurrence kept.
  \<^item> A suppression is valid when its id does not name a finding (no match of
    \<open>/\[.*\]/\<close>) and its reason has at least 10 characters; adding an invalid one to a
    CloudFormation resource throws.
  \<^item> IAM4 reports a role that attaches an AWS managed policy, unless the role carries a
    suppression for IAM4.
  Lemmas: the de-duplication equals the reference \<open>rev (remdups (rev xs))\<close>; adding the same
  rules again changes nothing; a property every single step keeps is kept by the loop.
\<close>

fun dedup_seen :: "'a list \<Rightarrow> 'a list \<Rightarrow> 'a list" where
  "dedup_seen seen [] = []"
| "dedup_seen seen (x # xs) =
     (if x \<in> set seen then dedup_seen seen xs else x # dedup_seen (x # seen) xs)"

definition add_rules :: "nag_pack_suppression list \<Rightarrow> nag_pack_suppression list \<Rightarrow> nag_pack_suppression list" where
  "add_rules cur new = dedup_seen [] (cur @ new)"

text \<open>\<open>/\[.*\]/\<close> on a suppression id: a \<open>[\<close> followed by a \<open>]\<close> on the same line.\<close>

fun finding_close :: "string \<Rightarrow> bool" where
  "finding_close [] = False"
| "finding_close (c # cs) =
     (if c = CHR '']'' then True else if c = CHR 0x0A \<or> c = CHR 0x0D then False else finding_close cs)"

fun names_finding :: "string \<Rightarrow> bool" where
  "names_finding [] = False"
| "names_finding (c # cs) = ((c = CHR ''['' \<and> finding_close cs) \<or> names_finding cs)"

definition valid_suppression :: "nag_pack_suppression \<Rightarrow> bool" where
  "valid_suppression s \<longleftrightarrow> \<not> names_finding (ruleId s) \<and> 10 \<le> length (reason s)"

definition default_child :: "ctree_c \<Rightarrow> cpath \<Rightarrow> cdk_error + cpath option" where
  "default_child t p =
     (case (lookup t (p @ [''Resource'']), lookup t (p @ [''Default''])) of
        (Some _, Some _) \<Rightarrow> Inl (AmbiguousDefaultChild p)
      | (None, Some _) \<Rightarrow> Inr (Some (p @ [''Default'']))
      | (Some _, None) \<Rightarrow> Inr (Some (p @ [''Resource'']))
      | (None, None) \<Rightarrow> Inr None)"

definition suppress_one :: "nag_pack_suppression list \<Rightarrow> ctree_c \<Rightarrow> cpath \<Rightarrow> cdk_error + ctree_c" where
  "suppress_one sups t q =
     bindE (default_child t q) (\<lambda>dc.
       let l1 = (case dc of Some d \<Rightarrow> d | None \<Rightarrow> q) in
       (case res_at t l1 of
          Some r \<Rightarrow>
            if is_cfn_resource r then
              (if list_all valid_suppression sups
               then Inr (update_node t l1 (\<lambda>n. n\<lparr>nagMetadata := add_rules (nagMetadata n) sups\<rparr>))
               else Inl (InvalidSuppression l1))
            else Inr t
        | None \<Rightarrow> Inr t))"

definition add_resource_suppressions ::
  "ctree_c \<Rightarrow> cpath list \<Rightarrow> nag_pack_suppression list \<Rightarrow> bool \<Rightarrow> cdk_error + ctree_c" where
  "add_resource_suppressions t cs sups apply_children =
     (if cs = [] then Inl EmptyConstructArray
      else foldE (\<lambda>t c. foldE (suppress_one sups) (if apply_children then find_all t c else [c]) t) cs t)"

subsection \<open>Rule AwsSolutions-IAM4\<close>

definition iam4_applies :: "resource \<Rightarrow> bool" where
  "iam4_applies r \<longleftrightarrow> list_ex is_aws_managed_arn (role_policy_arns r)"

definition suppresses :: "cnode \<Rightarrow> string \<Rightarrow> bool" where
  "suppresses n rid \<longleftrightarrow> list_ex (\<lambda>s. ruleId s = rid) (nagMetadata n)"

definition iam4_findings :: "ctree_c \<Rightarrow> cpath list" where
  "iam4_findings t =
     map fst (filter (\<lambda>(p, n). iam4_applies (res n) \<and> \<not> suppresses n ''AwsSolutions-IAM4'') t)"

subsection \<open>De-duplication\<close>

lemma set_dedup_seen: "set (dedup_seen seen xs) = set xs - set seen"
  by (induction seen xs rule: dedup_seen.induct) auto

lemma distinct_dedup_seen: "distinct (dedup_seen seen xs)"
  by (induction seen xs rule: dedup_seen.induct) (auto simp add: set_dedup_seen)

lemma dedup_seen_distinct_id: "distinct xs \<Longrightarrow> set xs \<inter> set seen = {} \<Longrightarrow> dedup_seen seen xs = xs"
  by (induction seen xs rule: dedup_seen.induct) auto

lemma dedup_seen_set_cong: "set s1 = set s2 \<Longrightarrow> dedup_seen s1 xs = dedup_seen s2 xs"
  by (induction s1 xs arbitrary: s2 rule: dedup_seen.induct) auto

lemma dedup_seen_append:
  "dedup_seen seen (xs @ ys) = dedup_seen seen xs @ dedup_seen (rev xs @ seen) ys"
proof (induction seen xs rule: dedup_seen.induct)
  case (1 seen)
  show ?case by simp
next
  case (2 seen x xs)
  show ?case
  proof (cases "x \<in> set seen")
    case True
    then have "dedup_seen (rev xs @ x # seen) ys = dedup_seen (rev xs @ seen) ys"
      by (intro dedup_seen_set_cong) auto
    with True "2.IH"(1) show ?thesis by simp
  next
    case False
    then show ?thesis using "2.IH"(2) by simp
  qed
qed

text \<open>
  The de-duplication of the \<open>cdk_nag\<close> metadata keeps the first occurrence of each rule
  not seen before; it equals the reference \<open>remdups\<close> (which keeps the last occurrence)
  applied to the reversed list of the rules not seen before.
\<close>

lemma dedup_seen_rev_remdups:
  "dedup_seen seen xs = rev (remdups (rev (filter (\<lambda>x. x \<notin> set seen) xs)))"
proof (induction seen xs rule: dedup_seen.induct)
  case (1 seen)
  show ?case by simp
next
  case (2 seen x xs)
  show ?case
  proof (cases "x \<in> set seen")
    case True
    with "2.IH"(1) show ?thesis by simp
  next
    case False
    let ?F = "filter (\<lambda>y. y \<notin> set seen) xs"
    have "filter (\<lambda>y. y \<notin> set (x # seen)) xs = filter (\<lambda>y. y \<noteq> x) ?F"
      by (simp add: conj_commute)
    then have "dedup_seen (x # seen) xs = filter (\<lambda>y. y \<noteq> x) (rev (remdups (rev ?F)))"
      using "2.IH"(2) False by (simp add: rev_filter remdups_filter)
    with False show ?thesis by (simp add: remdups_snoc rev_filter)
  qed
qed

lemma set_add_rules [simp]: "set (add_rules cur new) = set cur \<union> set new"
  by (auto simp add: add_rules_def set_dedup_seen)

lemma distinct_add_rules: "distinct (add_rules cur new)"
  by (simp add: add_rules_def distinct_dedup_seen)

lemma add_rules_distinct_new: "distinct new \<Longrightarrow> add_rules [] new = new"
  by (simp add: add_rules_def dedup_seen_distinct_id)

lemma add_rules_distinct_cur: "distinct cur \<Longrightarrow> add_rules cur new = cur @ dedup_seen (rev cur) new"
  by (simp add: add_rules_def dedup_seen_append dedup_seen_distinct_id)

text \<open>Adding the same suppressions to a resource a second time leaves its metadata as the
  first addition left it.\<close>

lemma add_rules_idem: "add_rules (add_rules cur new) new = add_rules cur new"
proof -
  let ?D = "add_rules cur new"
  have "set (dedup_seen (rev ?D) new) = {}"
    by (auto simp add: set_dedup_seen)
  then have "dedup_seen (rev ?D) new = []"
    by (simp only: set_empty)
  then show ?thesis
    using add_rules_distinct_cur [OF distinct_add_rules, of cur new new] by simp
qed


lemma add_rules_self:
  assumes "distinct xs"
  shows "add_rules xs xs = xs"
proof -
  have "set (dedup_seen (rev xs) xs) = {}" by (simp add: set_dedup_seen)
  then have "dedup_seen (rev xs) xs = []" by (simp only: set_empty)
  with assms show ?thesis by (simp add: add_rules_distinct_cur)
qed

lemma suppress_one_wf:
  assumes wf: "ctree_wf t" and s: "suppress_one sups t q = Inr t'"
  shows "ctree_wf t'"
  using s wf by (auto simp add: suppress_one_def Let_def update_node_wf split: option.splits if_splits)

text \<open>A property that every single suppression keeps is kept by the whole loop.\<close>

lemma add_resource_suppressions_invariant:
  assumes step: "\<And>s q s'. P s \<Longrightarrow> suppress_one sups s q = Inr s' \<Longrightarrow> P s'"
    and start: "P t" and run: "add_resource_suppressions t cs sups b = Inr t'"
  shows "P t'"
proof -
  have inner: "P s'" if "P s" "foldE (suppress_one sups) qs s = Inr s'" for s s' qs
    using foldE_invariant [of P qs "suppress_one sups" s s'] that step by blast
  from run have loop: "foldE (\<lambda>t c. foldE (suppress_one sups) (if b then find_all t c else [c]) t) cs t = Inr t'"
    by (simp add: add_resource_suppressions_def split: if_splits)
  show ?thesis
    by (rule foldE_invariant [where P = P, OF _ start loop]) (use inner in blast)
qed

lemma add_resource_suppressions_wf:
  "ctree_wf t \<Longrightarrow> add_resource_suppressions t cs sups b = Inr t' \<Longrightarrow> ctree_wf t'"
  by (rule add_resource_suppressions_invariant [where P = ctree_wf]) (auto intro: suppress_one_wf)

lemma suppress_one_paths: "suppress_one sups t q = Inr t' \<Longrightarrow> paths t' = paths t"
  by (auto simp add: suppress_one_def Let_def split: option.splits if_splits)

lemma add_resource_suppressions_paths:
  assumes "add_resource_suppressions t cs sups b = Inr t'"
  shows "paths t' = paths t"
  using add_resource_suppressions_invariant [where P = "\<lambda>u. paths u = paths t", OF _ refl assms]
    suppress_one_paths by metis

end
