(* ===== verification/Lambda.thy ===== *)
theory Lambda
  imports Resources
begin

text \<open>
  \<open>new NodejsFunction(scope, id, props)\<close> of \<open>aws-cdk-lib/aws-lambda-nodejs\<close> and the
  \<open>currentVersion\<close> getter of \<open>aws-cdk-lib/aws-lambda\<close>.
  \<^item> \<open>NodejsFunction\<close> refuses a runtime that is not of the Node.js family, then an
    entry that is not a JavaScript or TypeScript file (\<open>findEntry\<close>), prefixes a
    handler name without a dot with \<open>index.\<close> (the bundle is \<open>index.js\<close>), and sets
    \<open>AWS_NODEJS_CONNECTION_REUSE_ENABLED=1\<close> unless \<open>awsSdkConnectionReuse\<close> is false.
  \<^item> \<open>Function\<close> binds its code (\<open>code.bind(this)\<close>: the asset \<open>Code\<close> with its staging
    child \<open>Stage\<close>), then converts the timeout with \<open>Duration.toSeconds()\<close>, which throws when the
    duration is not a whole number of seconds, after the construct is in the tree.
  \<^item> \<open>currentVersion\<close> creates the child \<open>CurrentVersion\<close> on its first call and caches
    it; later calls return the cached version.
  Whether the entry file and a dependency lock file exist is read from the file system;
  the model takes both as found.
  The last group states the Lambda@Edge quotas a function must meet to be associated with a
  CloudFront origin or viewer event (no environment variables; origin: at most 30 s and
  10240 MB; viewer: at most 5 s and 128 MB).
\<close>

fun runtime_family :: "runtime \<Rightarrow> runtime_family" where
  "runtime_family PYTHON_3_12 = PYTHON"
| "runtime_family _ = NODEJS"

fun runtime_name :: "runtime \<Rightarrow> string" where
  "runtime_name NODEJS_18_X = ''nodejs18.x''"
| "runtime_name NODEJS_20_X = ''nodejs20.x''"
| "runtime_name NODEJS_22_X = ''nodejs22.x''"
| "runtime_name PYTHON_3_12 = ''python3.12''"

fun unit_millis :: "time_unit \<Rightarrow> nat" where
  "unit_millis Milliseconds = 1"
| "unit_millis Seconds = 1000"
| "unit_millis Minutes = 60000"

text \<open>\<open>Duration.toSeconds()\<close> with its default \<open>integral: true\<close>.\<close>

fun to_seconds :: "duration \<Rightarrow> cdk_error + nat" where
  "to_seconds (Duration n u) =
     (let ms = n * unit_millis u in
      if ms mod 1000 = 0 then Inr (ms div 1000) else Inl NotWholeSeconds)"

definition nodejs_handler :: "string \<Rightarrow> string" where
  "nodejs_handler h = (if CHR ''.'' \<in> set h then h else ''index.'' @ h)"

definition connection_reuse_var :: "string \<times> string" where
  "connection_reuse_var = (''AWS_NODEJS_CONNECTION_REUSE_ENABLED'', ''1'')"

definition nodejs_environment :: "nodejs_function_props \<Rightarrow> (string \<times> string) list" where
  "nodejs_environment props = (if awsSdkConnectionReuse props then [connection_reuse_var] else [])"

definition cfn_function_of :: "nodejs_function_props \<Rightarrow> nat \<Rightarrow> cfn_function" where
  "cfn_function_of props secs =
     \<lparr>cfnRuntime = runtime_name (runtime props), cfnHandler = nodejs_handler (handler props),
      cfnMemorySize = memorySize props, cfnTimeout = secs, cfnRole = role props,
      cfnEnvironment = nodejs_environment props\<rparr>"

text \<open>\<open>findEntry\<close>: an explicit entry must end in one of the extensions of
  \<open>/\.(jsx?|tsx?|cjs|cts|mjs|mts)$/\<close>.\<close>

definition js_entry_extensions :: "string list" where
  "js_entry_extensions = [''.js'', ''.jsx'', ''.ts'', ''.tsx'', ''.cjs'', ''.cts'', ''.mjs'', ''.mts'']"

definition js_entry :: "string \<Rightarrow> bool" where
  "js_entry e \<longleftrightarrow> list_ex (\<lambda>x. drop (length e - length x) e = x) js_entry_extensions"

definition nodejs_function_new ::
  "ctree_c \<Rightarrow> cpath \<Rightarrow> string \<Rightarrow> nodejs_function_props \<Rightarrow> cdk_error + (cpath \<times> ctree_c)" where
  "nodejs_function_new t scope nid props =
     (if runtime_family (runtime props) \<noteq> NODEJS then Inl NotNodeRuntime
      else if \<not> js_entry (entry props) then Inl (NotJsEntry (entry props))
      else bindE (new_construct t scope nid (FunctionR props None)) (\<lambda>(p, t1).
           bindE (new_construct t1 p ''Code'' (AssetR (entry props))) (\<lambda>(a, t2).
           bindE (new_construct t2 a ''Stage'' AssetStagingR) (\<lambda>(_, t3).
           bindE (to_seconds (timeout props)) (\<lambda>secs.
           bindE (new_construct t3 p ''Resource'' (CfnFunctionR (cfn_function_of props secs))) (\<lambda>(_, t4).
           Inr (p, t4)))))))"

fun set_version_cache :: "cpath \<Rightarrow> cnode \<Rightarrow> cnode" where
  "set_version_cache v n =
     (case res n of FunctionR props _ \<Rightarrow> n\<lparr>res := FunctionR props (Some v)\<rparr> | _ \<Rightarrow> n)"

definition current_version :: "ctree_c \<Rightarrow> cpath \<Rightarrow> cdk_error + (cpath \<times> ctree_c)" where
  "current_version t f =
     (case res_at t f of
        Some (FunctionR props (Some v)) \<Rightarrow> Inr (v, t)
      | Some (FunctionR props None) \<Rightarrow>
          bindE (new_l2 t f ''CurrentVersion'' (VersionR f) (\<lambda>_. CfnVersionR f)) (\<lambda>(v, t1).
          Inr (v, update_node t1 f (set_version_cache v)))
      | _ \<Rightarrow> Inl (NotAFunction f))"

subsection \<open>Lambda@Edge quotas\<close>

definition edge_origin_ok :: "cfn_function \<Rightarrow> bool" where
  "edge_origin_ok c \<longleftrightarrow> cfnEnvironment c = [] \<and> cfnTimeout c \<le> 30 \<and>
     128 \<le> cfnMemorySize c \<and> cfnMemorySize c \<le> 10240"

definition edge_viewer_ok :: "cfn_function \<Rightarrow> bool" where
  "edge_viewer_ok c \<longleftrightarrow> cfnEnvironment c = [] \<and> cfnTimeout c \<le> 5 \<and> cfnMemorySize c \<le> 128"

subsection \<open>Lemmas\<close>

lemma to_seconds_Seconds [simp]: "to_seconds (Duration n Seconds) = Inr n"
  by simp

lemma to_seconds_Millis:
  "to_seconds (Duration n Milliseconds) = (if n mod 1000 = 0 then Inr (n div 1000) else Inl NotWholeSeconds)"
  by simp

lemma nodejs_environment_no_reuse [simp]:
  "\<not> awsSdkConnectionReuse props \<Longrightarrow> nodejs_environment props = []"
  by (simp add: nodejs_environment_def)

lemma nodejs_function_new_Inr_iff:
  "nodejs_function_new t scope nid props = Inr (p, t') \<longleftrightarrow>
     runtime_family (runtime props) = NODEJS \<and> js_entry (entry props) \<and>
     (\<exists>t1 a t2 s t3 secs q. new_construct t scope nid (FunctionR props None) = Inr (p, t1) \<and>
        new_construct t1 p ''Code'' (AssetR (entry props)) = Inr (a, t2) \<and>
        new_construct t2 a ''Stage'' AssetStagingR = Inr (s, t3) \<and>
        to_seconds (timeout props) = Inr secs \<and>
        new_construct t3 p ''Resource'' (CfnFunctionR (cfn_function_of props secs)) = Inr (q, t'))"
  by (auto simp add: nodejs_function_new_def split: prod.splits)

lemma nodejs_function_new_wf:
  "ctree_wf t \<Longrightarrow> nodejs_function_new t scope nid props = Inr (p, t') \<Longrightarrow> ctree_wf t'"
  by (auto simp add: nodejs_function_new_Inr_iff) (metis new_construct_wf)

lemma nodejs_function_new_paths:
  assumes "nodejs_function_new t scope nid props = Inr (p, t')"
  shows "paths t' = paths t @ [p, p @ [''Code''], p @ [''Code'', ''Stage''], p @ [''Resource'']] \<and>
    p = scope @ [sanitize_id nid] \<and> p \<notin> set (paths t)"
proof -
  from assms obtain t1 a t2 s t3 secs q where c1: "new_construct t scope nid (FunctionR props None) = Inr (p, t1)"
    and c2: "new_construct t1 p ''Code'' (AssetR (entry props)) = Inr (a, t2)"
    and c3: "new_construct t2 a ''Stage'' AssetStagingR = Inr (s, t3)"
    and c4: "new_construct t3 p ''Resource'' (CfnFunctionR (cfn_function_of props secs)) = Inr (q, t')"
    by (auto simp add: nodejs_function_new_Inr_iff)
  have "a = p @ [''Code'']" "s = p @ [''Code'', ''Stage'']" "q = p @ [''Resource'']"
    using new_construct_path [OF c2] new_construct_path [OF c3] new_construct_path [OF c4] by simp_all
  then show ?thesis
    using new_construct_paths [OF c1] new_construct_paths [OF c2] new_construct_paths [OF c3]
      new_construct_paths [OF c4] new_construct_path [OF c1] by auto
qed

text \<open>At a fresh site the construction appends the function, its code asset with the
  asset's staging, and the \<open>AWS::Lambda::Function\<close>; only the timeout can still fail.\<close>

lemma nodejs_function_new_fresh_site:
  assumes "runtime_family (runtime props) = NODEJS" and "js_entry (entry props)"
    and "scope \<in> set (paths t)" and "nid \<noteq> []"
    and "scope @ [sanitize_id nid] \<notin> set (paths t)"
    and "scope @ [sanitize_id nid, ''Code''] \<notin> set (paths t)"
    and "scope @ [sanitize_id nid, ''Code'', ''Stage''] \<notin> set (paths t)"
    and "scope @ [sanitize_id nid, ''Resource''] \<notin> set (paths t)"
  shows "nodejs_function_new t scope nid props =
    bindE (to_seconds (timeout props)) (\<lambda>secs.
    Inr (scope @ [sanitize_id nid],
         t @ [(scope @ [sanitize_id nid], mk_node (FunctionR props None)),
              (scope @ [sanitize_id nid, ''Code''], mk_node (AssetR (entry props))),
              (scope @ [sanitize_id nid, ''Code'', ''Stage''], mk_node AssetStagingR),
              (scope @ [sanitize_id nid, ''Resource''], mk_node (CfnFunctionR (cfn_function_of props secs)))]))"
proof -
  let ?p = "scope @ [sanitize_id nid]" and ?c = "scope @ [sanitize_id nid, ''Code'']"
    and ?s = "scope @ [sanitize_id nid, ''Code'', ''Stage'']" and ?r = "scope @ [sanitize_id nid, ''Resource'']"
  let ?t1 = "t @ [(?p, mk_node (FunctionR props None))]"
  let ?t2 = "t @ [(?p, mk_node (FunctionR props None)), (?c, mk_node (AssetR (entry props)))]"
  let ?t3 = "t @ [(?p, mk_node (FunctionR props None)), (?c, mk_node (AssetR (entry props))),
    (?s, mk_node AssetStagingR)]"
  have a: "new_construct t scope nid (FunctionR props None) = Inr (?p, ?t1)"
    using assms(3-5) by (rule new_construct_fresh)
  have b: "new_construct ?t1 ?p ''Code'' (AssetR (entry props)) = Inr (?c, ?t2)"
    using new_construct_fresh [of ?p ?t1 "''Code''"] assms(6) by (simp add: paths_append)
  have c: "new_construct ?t2 ?c ''Stage'' AssetStagingR = Inr (?s, ?t3)"
    using new_construct_fresh [of ?c ?t2 "''Stage''"] assms(7) by (simp add: paths_append)
  have d: "\<And>r. new_construct ?t3 ?p ''Resource'' r = Inr (?r, ?t3 @ [(?r, mk_node r)])"
    using new_construct_fresh [of ?p ?t3 "''Resource''"] assms(8) by (simp add: paths_append)
  show ?thesis
    using assms(1,2) by (cases "to_seconds (timeout props)") (simp_all add: nodejs_function_new_def a b c d)
qed

lemma nodejs_function_new_fresh:
  assumes "runtime_family (runtime props) = NODEJS" and "js_entry (entry props)"
    and "to_seconds (timeout props) = Inr secs"
    and "scope \<in> set (paths t)" and "nid \<noteq> []"
    and "scope @ [sanitize_id nid] \<notin> set (paths t)"
    and "scope @ [sanitize_id nid, ''Code''] \<notin> set (paths t)"
    and "scope @ [sanitize_id nid, ''Code'', ''Stage''] \<notin> set (paths t)"
    and "scope @ [sanitize_id nid, ''Resource''] \<notin> set (paths t)"
  shows "nodejs_function_new t scope nid props =
    Inr (scope @ [sanitize_id nid],
         t @ [(scope @ [sanitize_id nid], mk_node (FunctionR props None)),
              (scope @ [sanitize_id nid, ''Code''], mk_node (AssetR (entry props))),
              (scope @ [sanitize_id nid, ''Code'', ''Stage''], mk_node AssetStagingR),
              (scope @ [sanitize_id nid, ''Resource''], mk_node (CfnFunctionR (cfn_function_of props secs)))])"
  using nodejs_function_new_fresh_site [OF assms(1,2,4-9)] assms(3) by simp

lemma res_at_update_node_cache:
  "res_at (update_node t f (set_version_cache v)) q =
     (if q = f then map_option (res \<circ> set_version_cache v) (lookup t f) else res_at t q)"
  by (simp add: res_at_def lookup_update_node option.map_comp)

lemma current_version_cached:
  "res_at t f = Some (FunctionR props (Some v)) \<Longrightarrow> current_version t f = Inr (v, t)"
  by (simp add: current_version_def)

lemma current_version_first:
  assumes "res_at t f = Some (FunctionR props None)"
    and "new_l2 t f ''CurrentVersion'' (VersionR f) (\<lambda>_. CfnVersionR f) = Inr (v, t1)"
  shows "current_version t f = Inr (v, update_node t1 f (set_version_cache v))"
  using assms by (simp add: current_version_def)

lemma current_version_fresh:
  assumes "res_at t f = Some (FunctionR props None)"
    and "f @ [''CurrentVersion''] \<notin> set (paths t)"
    and "f @ [''CurrentVersion'', ''Resource''] \<notin> set (paths t)"
  shows "current_version t f =
    Inr (f @ [''CurrentVersion''],
         update_node (t @ [(f @ [''CurrentVersion''], mk_node (VersionR f)),
                           (f @ [''CurrentVersion'', ''Resource''], mk_node (CfnVersionR f))])
           f (set_version_cache (f @ [''CurrentVersion''])))"
proof -
  from assms(1) have "f \<in> set (paths t)"
    using lookup_None_iff [of t f] by (auto simp add: res_at_def)
  then have "new_l2 t f ''CurrentVersion'' (VersionR f) (\<lambda>_. CfnVersionR f) =
    Inr (f @ [''CurrentVersion''], t @ [(f @ [''CurrentVersion''], mk_node (VersionR f)),
      (f @ [''CurrentVersion'', ''Resource''], mk_node (CfnVersionR f))])"
    using new_l2_fresh [of f t "''CurrentVersion''"] assms(2,3) by simp
  with assms(1) show ?thesis by (rule current_version_first)
qed

lemma current_version_wf:
  assumes wf: "ctree_wf t" and cv: "current_version t f = Inr (v, t')"
  shows "ctree_wf t'"
proof (cases "res_at t f")
  case None
  with cv show ?thesis by (simp add: current_version_def)
next
  case (Some r)
  show ?thesis
  proof (cases r)
    case (FunctionR props c)
    show ?thesis
    proof (cases c)
      case None
      with cv Some FunctionR obtain t1 where
        l2: "new_l2 t f ''CurrentVersion'' (VersionR f) (\<lambda>_. CfnVersionR f) = Inr (v, t1)"
        and t': "t' = update_node t1 f (set_version_cache v)"
        by (auto simp add: current_version_def split: prod.splits)
      from new_l2_wf [OF wf l2] t' show ?thesis by (simp add: update_node_wf)
    next
      case (Some v')
      with cv \<open>res_at t f = Some r\<close> FunctionR wf show ?thesis by (simp add: current_version_def)
    qed
  qed (use cv Some in \<open>simp_all add: current_version_def\<close>)
qed

lemma current_version_paths:
  assumes "current_version t f = Inr (v, t')"
  shows "set (paths t) \<subseteq> set (paths t')"
proof (cases "res_at t f")
  case None
  with assms show ?thesis by (simp add: current_version_def)
next
  case (Some r)
  show ?thesis
  proof (cases r)
    case (FunctionR props c)
    show ?thesis
    proof (cases c)
      case None
      with assms Some FunctionR obtain t1 where
        l2: "new_l2 t f ''CurrentVersion'' (VersionR f) (\<lambda>_. CfnVersionR f) = Inr (v, t1)"
        and t': "t' = update_node t1 f (set_version_cache v)"
        by (auto simp add: current_version_def split: prod.splits)
      from new_l2_paths [OF l2] t' show ?thesis by auto
    next
      case (Some v')
      with assms \<open>res_at t f = Some r\<close> FunctionR show ?thesis by (simp add: current_version_def)
    qed
  qed (use assms Some in \<open>simp_all add: current_version_def\<close>)
qed

text \<open>C11. The \<open>currentVersion\<close> getter is memoised: reading it again after a successful
  read returns the same version and leaves the construct tree unchanged.\<close>

lemma current_version_idem:
  assumes cv: "current_version t f = Inr (v, t')"
  shows "current_version t' f = Inr (v, t')"
proof (cases "res_at t f")
  case None
  with cv show ?thesis by (simp add: current_version_def)
next
  case (Some r)
  show ?thesis
  proof (cases r)
    case (FunctionR props c)
    show ?thesis
    proof (cases c)
      case None
      with cv Some FunctionR obtain t1 where
        l2: "new_l2 t f ''CurrentVersion'' (VersionR f) (\<lambda>_. CfnVersionR f) = Inr (v, t1)"
        and t': "t' = update_node t1 f (set_version_cache v)"
        by (auto simp add: current_version_def split: prod.splits)
      from new_l2_paths [OF l2] have v: "v = f @ [''CurrentVersion'']" by simp
      from new_l2_res_at [OF l2, of f] v Some FunctionR None
      have "res_at t1 f = Some (FunctionR props None)" by simp
      then obtain z where z: "lookup t1 f = Some z" and rz: "res z = FunctionR props None"
        by (auto simp add: res_at_def)
      have "res_at t' f = Some (FunctionR props (Some v))"
        by (simp add: t' res_at_update_node_cache z rz)
      then show ?thesis by (rule current_version_cached)
    next
      case (Some v')
      with cv \<open>res_at t f = Some r\<close> FunctionR show ?thesis by (simp add: current_version_def)
    qed
  qed (use cv Some in \<open>simp_all add: current_version_def\<close>)
qed

theorem current_version_idem_witness:
  "\<exists>v t'. current_version
       [([], mk_node AppR),
        ([''Fn''], mk_node (FunctionR \<lparr>runtime = NODEJS_22_X, entry = ''index.ts'', handler = ''handler'',
           awsSdkConnectionReuse = False, memorySize = 128, timeout = Duration 3 Seconds, role = []\<rparr> None))]
       [''Fn''] = Inr (v, t') \<and>
     current_version t' [''Fn''] = Inr (v, t')"
proof -
  let ?props = "\<lparr>runtime = NODEJS_22_X, entry = ''index.ts'', handler = ''handler'',
    awsSdkConnectionReuse = False, memorySize = 128, timeout = Duration 3 Seconds, role = []\<rparr>"
  let ?t = "[([], mk_node AppR), ([''Fn''], mk_node (FunctionR ?props None))]"
  have "\<exists>v t'. current_version ?t [''Fn''] = Inr (v, t')"
    using current_version_fresh [of ?t "[''Fn'']" ?props]
    by (simp add: res_at_def lookup_def paths_def mk_node_def)
  then obtain v t' where run: "current_version ?t [''Fn''] = Inr (v, t')" by blast
  from current_version_idem [OF run] run show ?thesis by blast
qed

lemma to_seconds_Inl_iff:
  "to_seconds d = Inl e \<longleftrightarrow>
     e = NotWholeSeconds \<and> (case d of Duration n u \<Rightarrow> n * unit_millis u mod 1000 \<noteq> 0)"
  by (cases d) (auto simp add: Let_def)

text \<open>C19. Of the checks of \<open>new NodejsFunction\<close> that do not read the file system, on a
  well-formed tree the construction throws exactly in these cases, checked in this order:
  the runtime is not of the Node.js family; the entry is not a JavaScript or TypeScript
  file; the construct cannot be added (the error of \<open>addChild\<close>); the timeout is not a
  whole number of seconds. The code asset, its staging and the \<open>AWS::Lambda::Function\<close>
  are always added: none of them throws.\<close>

theorem nodejs_function_new_error:
  assumes wf: "ctree_wf t"
  shows "nodejs_function_new t scope nid props = Inl e \<longleftrightarrow>
    (if runtime_family (runtime props) \<noteq> NODEJS then e = NotNodeRuntime
     else if \<not> js_entry (entry props) then e = NotJsEntry (entry props)
     else case new_construct t scope nid (FunctionR props None) of
       Inl e' \<Rightarrow> e = e'
     | Inr _ \<Rightarrow> to_seconds (timeout props) = Inl e)"
proof (cases "runtime_family (runtime props) = NODEJS \<and> js_entry (entry props)")
  case False
  then show ?thesis by (auto simp add: nodejs_function_new_def)
next
  case checks: True
  show ?thesis
  proof (cases "new_construct t scope nid (FunctionR props None)")
    case (Inl e')
    with checks show ?thesis by (auto simp add: nodejs_function_new_def)
  next
    case (Inr pt)
    then obtain p t1 where c: "new_construct t scope nid (FunctionR props None) = Inr (p, t1)"
      by (cases pt) auto
    then have sc: "scope \<in> set (paths t)" and ne: "nid \<noteq> []"
      and p: "p = scope @ [sanitize_id nid]" and fr: "p \<notin> set (paths t)"
      by (auto simp add: new_construct_Inr_iff add_child_Inr_iff lookup_None_iff)
    have below: "\<And>q. q \<notin> set (paths t) \<or> \<not> prefix p q"
      using ctree_wf_fresh_below [OF wf fr] .
    have run: "nodejs_function_new t scope nid props =
      bindE (to_seconds (timeout props)) (\<lambda>secs. Inr (p, t @
        [(p, mk_node (FunctionR props None)), (p @ [''Code''], mk_node (AssetR (entry props))),
         (p @ [''Code'', ''Stage''], mk_node AssetStagingR),
         (p @ [''Resource''], mk_node (CfnFunctionR (cfn_function_of props secs)))]))"
      using nodejs_function_new_fresh_site [OF _ _ sc ne] checks fr below [of "p @ [''Code'']"]
        below [of "p @ [''Code'', ''Stage'']"] below [of "p @ [''Resource'']"] p by simp
    show ?thesis
      using run checks c by (cases "to_seconds (timeout props)") auto
  qed
qed

theorem nodejs_function_new_error_witness:
  "ctree_wf (root_tree (mk_node AppR)) \<and>
   nodejs_function_new (root_tree (mk_node AppR)) [] ''Fn''
     \<lparr>runtime = NODEJS_22_X, entry = ''index.py'', handler = ''handler'', awsSdkConnectionReuse = False,
      memorySize = 128, timeout = Duration 3 Seconds, role = []\<rparr> = Inl (NotJsEntry ''index.py'')"
  using root_tree_wf nodejs_function_new_error [OF root_tree_wf, where scope = "[]" and nid = "''Fn''"
      and props = "\<lparr>runtime = NODEJS_22_X, entry = ''index.py'', handler = ''handler'', awsSdkConnectionReuse = False,
        memorySize = 128, timeout = Duration 3 Seconds, role = []\<rparr>" and e = "NotJsEntry ''index.py''"]
  by (simp add: js_entry_def js_entry_extensions_def)

end
