(* ===== verification/Waf.thy ===== *)
theory Waf
  imports Resources
begin

text \<open>
  The repository's own \<open>Waf\<close> construct (\<open>lib/constructs/waf\<close>, outside \<open>src/\<close>) and the
  \<open>devConfig\<close> object it is fed from (\<open>lib/config\<close>), modelled from the specification:
  the construct holds an IP set with exactly the allow-list, and a web ACL, scoped to
  CloudFront when \<open>useCloudFront\<close> is set, that allows requests from the IP set and blocks
  all others; \<open>webAcl\<close> is the web ACL, whose \<open>attrArn\<close> the stack exposes. The child ids
  \<open>IpSet\<close> and \<open>WebAcl\<close> stand for the construct's children.
  The abstract promise is \<open>config_allows\<close>: an address is admitted iff it is on the
  allow-list. \<open>waf_allows\<close> evaluates a synthesised web ACL on an address; the refinement
  lemma says the construct implements the promise.
\<close>

record dev_config =
  cfgAllowedIps :: "string list"

definition waf_scope_of :: "waf_props \<Rightarrow> waf_scope" where
  "waf_scope_of props = (if useCloudFront props then CLOUDFRONT else REGIONAL)"

text \<open>\<open>new Waf(scope, id, props)\<close>; returns the construct and its \<open>webAcl\<close>.\<close>

definition waf_new :: "ctree_c \<Rightarrow> cpath \<Rightarrow> string \<Rightarrow> waf_props \<Rightarrow> cdk_error + ((cpath \<times> cpath) \<times> ctree_c)" where
  "waf_new t scope nid props =
     bindE (new_construct t scope nid (WafR props)) (\<lambda>(w, t1).
     bindE (new_construct t1 w ''IpSet'' (CfnIPSetR (waf_scope_of props) (allowedIps props))) (\<lambda>(ip, t2).
     bindE (new_construct t2 w ''WebAcl'' (CfnWebACLR (waf_scope_of props) Block ip)) (\<lambda>(acl, t3).
     Inr ((w, acl), t3))))"

text \<open>Evaluation of a web ACL: the allow rule on its IP set, then the default action.\<close>

definition waf_allows :: "ctree_c \<Rightarrow> cpath \<Rightarrow> string \<Rightarrow> bool" where
  "waf_allows t acl addr =
     (case res_at t acl of
        Some (CfnWebACLR _ dflt ipref) \<Rightarrow>
          (case res_at t ipref of
             Some (CfnIPSetR _ addrs) \<Rightarrow> addr \<in> set addrs \<or> dflt = Allow
           | _ \<Rightarrow> dflt = Allow)
      | _ \<Rightarrow> True)"

definition config_allows :: "waf_props \<Rightarrow> string \<Rightarrow> bool" where
  "config_allows props addr \<longleftrightarrow> addr \<in> set (allowedIps props)"

subsection \<open>Lemmas\<close>

lemma waf_new_Inr:
  assumes "waf_new t scope nid props = Inr ((w, acl), t')"
  shows "\<exists>t1 t2 ip. new_construct t scope nid (WafR props) = Inr (w, t1) \<and>
    new_construct t1 w ''IpSet'' (CfnIPSetR (waf_scope_of props) (allowedIps props)) = Inr (ip, t2) \<and>
    new_construct t2 w ''WebAcl'' (CfnWebACLR (waf_scope_of props) Block ip) = Inr (acl, t')"
  using assms by (auto simp add: waf_new_def split: prod.splits)

lemma waf_new_res_at:
  assumes "waf_new t scope nid props = Inr ((w, acl), t')"
  shows "acl = w @ [''WebAcl''] \<and> w = scope @ [sanitize_id nid] \<and>
    res_at t' acl = Some (CfnWebACLR (waf_scope_of props) Block (w @ [''IpSet''])) \<and>
    res_at t' (w @ [''IpSet'']) = Some (CfnIPSetR (waf_scope_of props) (allowedIps props)) \<and>
    res_at t' w = Some (WafR props) \<and>
    (\<forall>q. q \<notin> {w, w @ [''IpSet''], w @ [''WebAcl'']} \<longrightarrow> res_at t' q = res_at t q)"
proof -
  from waf_new_Inr [OF assms] obtain t1 t2 ip where
    a: "new_construct t scope nid (WafR props) = Inr (w, t1)" and
    b: "new_construct t1 w ''IpSet'' (CfnIPSetR (waf_scope_of props) (allowedIps props)) = Inr (ip, t2)" and
    c: "new_construct t2 w ''WebAcl'' (CfnWebACLR (waf_scope_of props) Block ip) = Inr (acl, t')"
    by blast
  from new_construct_path [OF b] have ip: "ip = w @ [''IpSet'']" by simp
  from new_construct_path [OF c] have ac: "acl = w @ [''WebAcl'']" by simp
  from new_construct_path [OF a] have wp: "w = scope @ [sanitize_id nid]" by simp
  show ?thesis
    using new_construct_res_at [OF a] new_construct_res_at [OF b] new_construct_res_at [OF c] ip ac wp
    by auto
qed

lemma waf_new_wf:
  assumes "ctree_wf t" and "waf_new t scope nid props = Inr ((w, acl), t')"
  shows "ctree_wf t'"
proof -
  from waf_new_Inr [OF assms(2)] obtain t1 t2 ip where
    a: "new_construct t scope nid (WafR props) = Inr (w, t1)" and
    b: "new_construct t1 w ''IpSet'' (CfnIPSetR (waf_scope_of props) (allowedIps props)) = Inr (ip, t2)" and
    c: "new_construct t2 w ''WebAcl'' (CfnWebACLR (waf_scope_of props) Block ip) = Inr (acl, t')"
    by blast
  from new_construct_wf [OF new_construct_wf [OF new_construct_wf [OF assms(1) a] b] c]
  show ?thesis .
qed

lemma waf_new_paths:
  assumes "waf_new t scope nid props = Inr ((w, acl), t')"
  shows "paths t' = paths t @ [w, w @ [''IpSet''], w @ [''WebAcl'']]"
proof -
  from waf_new_Inr [OF assms] obtain t1 t2 ip where
    a: "new_construct t scope nid (WafR props) = Inr (w, t1)" and
    b: "new_construct t1 w ''IpSet'' (CfnIPSetR (waf_scope_of props) (allowedIps props)) = Inr (ip, t2)" and
    c: "new_construct t2 w ''WebAcl'' (CfnWebACLR (waf_scope_of props) Block ip) = Inr (acl, t')"
    by blast
  from new_construct_path [OF b] new_construct_path [OF c] new_construct_paths [OF a]
    new_construct_paths [OF b] new_construct_paths [OF c]
  show ?thesis by simp
qed

lemma waf_new_fresh:
  assumes "scope \<in> set (paths t)" and "nid \<noteq> []"
    and "scope @ [sanitize_id nid] \<notin> set (paths t)"
    and "scope @ [sanitize_id nid, ''IpSet''] \<notin> set (paths t)"
    and "scope @ [sanitize_id nid, ''WebAcl''] \<notin> set (paths t)"
  shows "waf_new t scope nid props =
    Inr ((scope @ [sanitize_id nid], scope @ [sanitize_id nid, ''WebAcl'']),
         t @ [(scope @ [sanitize_id nid], mk_node (WafR props)),
              (scope @ [sanitize_id nid, ''IpSet''],
                 mk_node (CfnIPSetR (waf_scope_of props) (allowedIps props))),
              (scope @ [sanitize_id nid, ''WebAcl''],
                 mk_node (CfnWebACLR (waf_scope_of props) Block (scope @ [sanitize_id nid, ''IpSet''])))])"
proof -
  let ?w = "scope @ [sanitize_id nid]"
  let ?t1 = "t @ [(?w, mk_node (WafR props))]"
  let ?t2 = "t @ [(?w, mk_node (WafR props)),
    (?w @ [''IpSet''], mk_node (CfnIPSetR (waf_scope_of props) (allowedIps props)))]"
  have a: "new_construct t scope nid (WafR props) = Inr (?w, ?t1)"
    using assms(1-3) by (rule new_construct_fresh)
  have b: "new_construct ?t1 ?w ''IpSet'' (CfnIPSetR (waf_scope_of props) (allowedIps props)) =
    Inr (?w @ [''IpSet''], ?t2)"
    using new_construct_fresh [of ?w ?t1 "''IpSet''"] assms(4) by (simp add: paths_append)
  have c1: "?w \<in> set (paths ?t2)" by (simp add: paths_append)
  have c2: "?w @ [sanitize_id ''WebAcl''] \<notin> set (paths ?t2)"
    using assms(5) by (simp add: paths_append)
  let ?acl = "CfnWebACLR (waf_scope_of props) Block (?w @ [''IpSet''])"
  have c: "new_construct ?t2 ?w ''WebAcl'' ?acl =
    Inr (?w @ [sanitize_id ''WebAcl''], ?t2 @ [(?w @ [sanitize_id ''WebAcl''], mk_node ?acl)])"
    by (rule new_construct_fresh [OF c1 _ c2]) simp
  show ?thesis using c by (simp add: waf_new_def a b)
qed

text \<open>C10. The construct implements its promise: the web ACL it creates admits an address iff
  the address is on the allow-list of its props.\<close>

lemma waf_new_refines:
  assumes "waf_new t scope nid props = Inr ((w, acl), t')"
  shows "waf_allows t' acl addr \<longleftrightarrow> config_allows props addr"
proof -
  from waf_new_res_at [OF assms]
  have acl: "res_at t' acl = Some (CfnWebACLR (waf_scope_of props) Block (w @ [''IpSet'']))"
    and ip: "res_at t' (w @ [''IpSet'']) = Some (CfnIPSetR (waf_scope_of props) (allowedIps props))"
    by blast+
  show ?thesis by (simp add: waf_allows_def config_allows_def acl ip)
qed

theorem waf_new_refines_witness:
  "\<exists>t'. waf_new (root_tree (mk_node AppR)) [] ''Fw''
          \<lparr>allowedIps = [''192.0.2.0/24''], useCloudFront = True\<rparr> = Inr (([''Fw''], [''Fw'', ''WebAcl'']), t') \<and>
     waf_allows t' [''Fw'', ''WebAcl''] ''192.0.2.0/24'' \<and> \<not> waf_allows t' [''Fw'', ''WebAcl''] ''198.51.100.7''"
proof -
  let ?p = "\<lparr>allowedIps = [''192.0.2.0/24''], useCloudFront = True\<rparr>"
  have "\<exists>t'. waf_new (root_tree (mk_node AppR)) [] ''Fw'' ?p = Inr (([''Fw''], [''Fw'', ''WebAcl'']), t')"
    using waf_new_fresh [of "[]" "root_tree (mk_node AppR)" "''Fw''" ?p] by simp
  then obtain t' where run: "waf_new (root_tree (mk_node AppR)) [] ''Fw'' ?p = Inr (([''Fw''], [''Fw'', ''WebAcl'']), t')"
    by blast
  from waf_new_refines [OF run, of "''192.0.2.0/24''"] waf_new_refines [OF run, of "''198.51.100.7''"] run
  show ?thesis by (simp add: config_allows_def)
qed

end
