(* ===== verification/Us_Region_Stack.thy ===== *)
theory Us_Region_Stack
  imports Nag Lambda Waf
begin

text \<open>
  The class \<open>UsRegionStack\<close> of \<open>src/lib/us-region-stack.ts\<close>. Its constructor runs, in this
  order: \<open>super(scope, id, props)\<close> (\<open>cdk.Stack\<close>, which adds the stack to the tree and
  checks its name), \<open>new Waf\<close> with the allow-list of \<open>devConfig\<close> and \<open>useCloudFront: true\<close>,
  the read of \<open>webAcl.attrArn\<close>, \<open>new Role\<close> trusting the Lambda and Lambda@Edge service
  principals with two AWS managed policies, \<open>new NodejsFunction\<close> running under that role,
  the \<open>currentVersion\<close> getter, and \<open>NagSuppressions.addResourceSuppressions\<close> on the role
  with \<open>applyToChildren = true\<close>. Each statement is one step of
  \<open>us_region_stack_new\<close>; an exception of any of them is its \<open>Inl\<close> result. The two
  public fields \<open>wafAttrArn\<close> and \<open>edgeFnVersion\<close> are the record \<open>us_region_stack\<close>.
  The main lemma, \<open>us_region_stack_new_eq\<close>, computes the constructor on any well-formed
  tree in which the stack's id is fresh: it returns and appends twelve constructs.
\<close>

subsection \<open>\<open>cdk.Stack\<close>\<close>

record stack_props =
  stackName :: "string option"
  region :: "string option"

definition no_stack_props :: stack_props where
  "no_stack_props = \<lparr>stackName = None, region = None\<rparr>"

definition is_ascii_letter :: "char \<Rightarrow> bool" where
  "is_ascii_letter c \<longleftrightarrow> (let n = of_char c :: nat in (65 \<le> n \<and> n \<le> 90) \<or> (97 \<le> n \<and> n \<le> 122))"

definition is_ascii_digit :: "char \<Rightarrow> bool" where
  "is_ascii_digit c \<longleftrightarrow> (let n = of_char c :: nat in 48 \<le> n \<and> n \<le> 57)"

text \<open>\<open>/^[A-Za-z][A-Za-z0-9-]*$/\<close>, the stack-name pattern of \<open>cdk.Stack\<close>.\<close>

definition valid_stack_name :: "string \<Rightarrow> bool" where
  "valid_stack_name s \<longleftrightarrow>
     (case s of [] \<Rightarrow> False
      | c # cs \<Rightarrow> is_ascii_letter c \<and>
          list_all (\<lambda>d. is_ascii_letter d \<or> is_ascii_digit d \<or> d = CHR ''-'') cs)"

text \<open>
  \<open>Stack.generateStackName\<close>: without \<open>props.stackName\<close>, a stack directly below the app
  whose sanitised id (its \<open>Node.id\<close>) has at most 128 characters is named by that id. Any
  other stack gets a name from \<open>makeUniqueResourceName\<close>, built from its path and an MD5 hash
  of it; that name is not modelled and is \<open>None\<close> here.
\<close>

definition stack_name_of :: "cpath \<Rightarrow> string \<Rightarrow> stack_props \<Rightarrow> string option" where
  "stack_name_of scope nid props =
     (case stackName props of
        Some n \<Rightarrow> Some n
      | None \<Rightarrow> if scope = [] \<and> length (sanitize_id nid) \<le> 128 then Some (sanitize_id nid) else None)"

text \<open>The two checks of the \<open>cdk.Stack\<close> constructor on the name it has determined.\<close>

definition stack_name_ok :: "string option \<Rightarrow> bool" where
  "stack_name_ok name \<longleftrightarrow> (case name of None \<Rightarrow> True | Some n \<Rightarrow> length n \<le> 128 \<and> valid_stack_name n)"

definition stack_new :: "ctree_c \<Rightarrow> cpath \<Rightarrow> string \<Rightarrow> stack_props \<Rightarrow> cdk_error + (cpath \<times> ctree_c)" where
  "stack_new t scope nid props =
     (let name = stack_name_of scope nid props in
      bindE (new_construct t scope nid (StackR name (region props))) (\<lambda>(p, t1).
        case name of
          None \<Rightarrow> Inr (p, t1)
        | Some n \<Rightarrow>
            if 128 < length n then Inl (InvalidStackName n)
            else if \<not> valid_stack_name n then Inl (InvalidStackName n)
            else Inr (p, t1)))"

subsection \<open>\<open>UsRegionStack\<close>\<close>

datatype attr_ref = GetAtt cpath string

record us_region_stack =
  stackPath :: cpath
  wafAttrArn :: attr_ref
  edgeFnVersion :: cpath

text \<open>Lines 25--28: the props of the firewall.\<close>

definition cloudfront_waf_props :: "dev_config \<Rightarrow> waf_props" where
  "cloudfront_waf_props cfg = \<lparr>allowedIps = cfgAllowedIps cfg, useCloudFront = True\<rparr>"

text \<open>Lines 32--43: the props of the execution role.\<close>

definition edge_fn_role_props :: role_props where
  "edge_fn_role_props =
     \<lparr>assumedBy = CompositePrincipal
        [ServicePrincipal ''lambda.amazonaws.com'', ServicePrincipal ''edgelambda.amazonaws.com''],
      managedPolicies =
        [\<lparr>managedPolicyName = ''service-role/AWSLambdaBasicExecutionRole''\<rparr>,
         \<lparr>managedPolicyName = ''AWSLambda_FullAccess''\<rparr>]\<rparr>"

text \<open>Lines 44--56: the props of the edge function, given the role construct.\<close>

definition edge_fn_props :: "cpath \<Rightarrow> nodejs_function_props" where
  "edge_fn_props edgeFnRole =
     \<lparr>runtime = NODEJS_22_X, entry = ''./lambda/edge/index.ts'', handler = ''handler'',
      awsSdkConnectionReuse = False, memorySize = 1024, timeout = Duration 5 Seconds,
      role = edgeFnRole\<rparr>"

text \<open>Lines 59--72: the two suppressions.\<close>

definition edge_fn_role_suppressions :: "nag_pack_suppression list" where
  "edge_fn_role_suppressions =
     [\<lparr>ruleId = ''AwsSolutions-IAM4'', reason = ''Given the least privilege to this role for lambda''\<rparr>,
      \<lparr>ruleId = ''AwsSolutions-IAM5'', reason = ''Given the least privilege to this role for lambda''\<rparr>]"

text \<open>Lines 22--73: the constructor.\<close>

definition us_region_stack_new ::
  "dev_config \<Rightarrow> ctree_c \<Rightarrow> cpath \<Rightarrow> string \<Rightarrow> stack_props \<Rightarrow> cdk_error + (us_region_stack \<times> ctree_c)" where
  "us_region_stack_new devConfig t scope nid props =
     bindE (stack_new t scope nid props) (\<lambda>(this, t1).
     bindE (waf_new t1 this (nid @ ''-CloudFrontFireWall'') (cloudfront_waf_props devConfig)) (\<lambda>((wafv2, webAcl), t2).
     let wafAttrArn = GetAtt webAcl ''Arn'' in
     bindE (role_new t2 this (nid @ ''-LambdaEdgeFunctionRole'') edge_fn_role_props) (\<lambda>(edgeFnRole, t3).
     bindE (nodejs_function_new t3 this (nid @ ''-LambdaEdgeFunction'') (edge_fn_props edgeFnRole)) (\<lambda>(lambdaEdgeFunction, t4).
     bindE (current_version t4 lambdaEdgeFunction) (\<lambda>(edgeFnVersion, t5).
     bindE (add_resource_suppressions t5 [edgeFnRole] edge_fn_role_suppressions True) (\<lambda>t6.
     Inr (\<lparr>stackPath = this, wafAttrArn = wafAttrArn, edgeFnVersion = edgeFnVersion\<rparr>, t6)))))))"

text \<open>
  Where \<open>new UsRegionStack(scope, id, props)\<close> is called: a well-formed tree, an existing
  scope, a non-empty id that the scope does not have yet, and a stack name that \<open>cdk.Stack\<close>
  accepts.
\<close>

definition fresh_stack_site :: "ctree_c \<Rightarrow> cpath \<Rightarrow> string \<Rightarrow> stack_props \<Rightarrow> bool" where
  "fresh_stack_site t scope nid props \<longleftrightarrow>
     ctree_wf t \<and> scope \<in> set (paths t) \<and> nid \<noteq> [] \<and> scope @ [sanitize_id nid] \<notin> set (paths t) \<and>
     stack_name_ok (stack_name_of scope nid props)"

subsection \<open>The description the constructor produces\<close>

text \<open>
  The twelve constructs below the stack path \<open>sp\<close> (with \<open>sid\<close> the sanitised stack id),
  in creation order: the stack (with its name and region), the firewall with its IP set and
  web ACL, the role with its \<open>AWS::IAM::Role\<close> (carrying the two suppressions), the function
  (its version cache set) with its code asset, the asset's staging and its
  \<open>AWS::Lambda::Function\<close>, and the version with its \<open>AWS::Lambda::Version\<close>.
\<close>

definition us_region_description ::
  "dev_config \<Rightarrow> cpath \<Rightarrow> string \<Rightarrow> string option \<Rightarrow> string option \<Rightarrow> ctree_c" where
  "us_region_description cfg sp sid name rg =
     (let w = sp @ [sid @ ''-CloudFrontFireWall''];
          r = sp @ [sid @ ''-LambdaEdgeFunctionRole''];
          f = sp @ [sid @ ''-LambdaEdgeFunction''];
          v = f @ [''CurrentVersion''] in
      [(sp, mk_node (StackR name rg)),
       (w, mk_node (WafR (cloudfront_waf_props cfg))),
       (w @ [''IpSet''], mk_node (CfnIPSetR (waf_scope_of (cloudfront_waf_props cfg))
          (allowedIps (cloudfront_waf_props cfg)))),
       (w @ [''WebAcl''], mk_node (CfnWebACLR (waf_scope_of (cloudfront_waf_props cfg)) Block (w @ [''IpSet'']))),
       (r, mk_node (RoleR edge_fn_role_props)),
       (r @ [''Resource''], \<lparr>res = cfn_role_of edge_fn_role_props, nagMetadata = edge_fn_role_suppressions\<rparr>),
       (f, mk_node (FunctionR (edge_fn_props r) (Some v))),
       (f @ [''Code''], mk_node (AssetR ''./lambda/edge/index.ts'')),
       (f @ [''Code'', ''Stage''], mk_node AssetStagingR),
       (f @ [''Resource''], mk_node (CfnFunctionR (cfn_function_of (edge_fn_props r) 5))),
       (v, mk_node (VersionR f)),
       (v @ [''Resource''], mk_node (CfnVersionR f))])"

subsection \<open>Lemmas\<close>

lemma stack_new_fresh:
  assumes "scope \<in> set (paths t)" and "nid \<noteq> []" and "scope @ [sanitize_id nid] \<notin> set (paths t)"
    and "stack_name_ok (stack_name_of scope nid props)"
  shows "stack_new t scope nid props =
    Inr (scope @ [sanitize_id nid], t @ [(scope @ [sanitize_id nid], mk_node (StackR (stack_name_of scope nid props) (region props)))])"
  using assms by (cases "stack_name_of scope nid props")
    (simp_all add: stack_new_def new_construct_fresh stack_name_ok_def Let_def)

lemma edge_fn_role_suppressions_distinct: "distinct edge_fn_role_suppressions"
  by (simp add: edge_fn_role_suppressions_def)

text \<open>Both suppressions of lines 59--72 pass the checks of cdk-nag.\<close>

lemma edge_fn_role_suppressions_valid: "list_all valid_suppression edge_fn_role_suppressions"
  by (simp add: edge_fn_role_suppressions_def valid_suppression_def)

lemma us_region_stack_new_eq:
  assumes wf: "ctree_wf t" and sc: "scope \<in> set (paths t)" and ne: "nid \<noteq> []"
    and fresh: "scope @ [sanitize_id nid] \<notin> set (paths t)"
    and name: "stack_name_ok (stack_name_of scope nid props)"
  shows "us_region_stack_new cfg t scope nid props =
    Inr (\<lparr>stackPath = scope @ [sanitize_id nid],
          wafAttrArn = GetAtt (scope @ [sanitize_id nid, sanitize_id nid @ ''-CloudFrontFireWall'', ''WebAcl'']) ''Arn'',
          edgeFnVersion = scope @ [sanitize_id nid, sanitize_id nid @ ''-LambdaEdgeFunction'', ''CurrentVersion'']\<rparr>,
         t @ us_region_description cfg (scope @ [sanitize_id nid]) (sanitize_id nid) (stack_name_of scope nid props) (region props))"
proof -
  let ?sp = "scope @ [sanitize_id nid]"
  have below: "\<And>q. prefix ?sp q \<Longrightarrow> q \<notin> set (paths t)"
    using ctree_wf_fresh_below [OF wf fresh] by blast
  have below_lookup: "\<And>q. prefix ?sp q \<Longrightarrow> lookup t q = None"
    using below by (simp add: lookup_None_iff)
  have below_find: "\<And>q. prefix ?sp q \<Longrightarrow> find_all t q = []"
    using below wf by (simp add: find_all_fresh)
  have below_upd: "\<And>q g. prefix ?sp q \<Longrightarrow> update_node t q g = t"
    using below by (simp add: update_node_fresh)
  show ?thesis
    unfolding us_region_stack_new_def
    using sc ne fresh name
    apply (simp add: stack_new_fresh)
    apply (subst waf_new_fresh)
    apply (simp_all add: paths_append below)
    apply (subst role_new_fresh)
    apply (simp_all add: paths_append below)
    apply (subst nodejs_function_new_fresh)
    apply (simp_all add: paths_append below edge_fn_props_def js_entry_def js_entry_extensions_def)
    apply (subst current_version_fresh)
    apply (simp_all add: paths_append below res_at_def lookup_append below_lookup mk_node_def)
    apply (simp add: add_resource_suppressions_def below_upd below_find tree_simps)
    apply (simp add: suppress_one_def default_child_def below_lookup res_at_def below_upd tree_simps Let_def
        edge_fn_role_suppressions_valid)
    apply (simp add: us_region_description_def mk_node_def add_rules_self add_rules_distinct_new edge_fn_role_suppressions_distinct Let_def edge_fn_props_def)
    done
qed

lemma stack_new_wf:
  "ctree_wf t \<Longrightarrow> stack_new t scope nid props = Inr (p, t') \<Longrightarrow> ctree_wf t'"
  by (cases "stack_name_of scope nid props")
    (auto simp add: stack_new_def Let_def split: if_splits intro: new_construct_wf)

lemma us_region_stack_new_Inr:
  assumes "us_region_stack_new cfg t scope nid props = Inr (s, t')"
  obtains p t1 w acl t2 r t3 f t4 v t5 where
    "stack_new t scope nid props = Inr (p, t1)"
    "waf_new t1 p (nid @ ''-CloudFrontFireWall'') (cloudfront_waf_props cfg) = Inr ((w, acl), t2)"
    "role_new t2 p (nid @ ''-LambdaEdgeFunctionRole'') edge_fn_role_props = Inr (r, t3)"
    "nodejs_function_new t3 p (nid @ ''-LambdaEdgeFunction'') (edge_fn_props r) = Inr (f, t4)"
    "current_version t4 f = Inr (v, t5)"
    "add_resource_suppressions t5 [r] edge_fn_role_suppressions True = Inr t'"
    "s = \<lparr>stackPath = p, wafAttrArn = GetAtt acl ''Arn'', edgeFnVersion = v\<rparr>"
  using assms by (auto simp add: us_region_stack_new_def Let_def split: prod.splits)

lemma stack_new_Inr:
  "stack_new t scope nid props = Inr (p, t1) \<Longrightarrow>
     new_construct t scope nid (StackR (stack_name_of scope nid props) (region props)) = Inr (p, t1)"
  by (cases "stack_name_of scope nid props") (auto simp add: stack_new_def Let_def split: if_splits)

text \<open>A run of the constructor only adds paths, and it adds the stack below its scope.\<close>

lemma us_region_stack_new_paths:
  assumes run: "us_region_stack_new cfg t scope nid props = Inr (s, t')"
  shows "set (paths t) \<subseteq> set (paths t') \<and> scope \<in> set (paths t) \<and> nid \<noteq> [] \<and>
    stackPath s = scope @ [sanitize_id nid] \<and> stackPath s \<in> set (paths t')"
proof -
  from run obtain p t1 w acl t2 r t3 f t4 v t5 where
    s1: "stack_new t scope nid props = Inr (p, t1)" and
    s2: "waf_new t1 p (nid @ ''-CloudFrontFireWall'') (cloudfront_waf_props cfg) = Inr ((w, acl), t2)" and
    s3: "role_new t2 p (nid @ ''-LambdaEdgeFunctionRole'') edge_fn_role_props = Inr (r, t3)" and
    s4: "nodejs_function_new t3 p (nid @ ''-LambdaEdgeFunction'') (edge_fn_props r) = Inr (f, t4)" and
    s5: "current_version t4 f = Inr (v, t5)" and
    s6: "add_resource_suppressions t5 [r] edge_fn_role_suppressions True = Inr t'" and
    s: "s = \<lparr>stackPath = p, wafAttrArn = GetAtt acl ''Arn'', edgeFnVersion = v\<rparr>"
    by (rule us_region_stack_new_Inr)
  from stack_new_Inr [OF s1] have c: "new_construct t scope nid (StackR (stack_name_of scope nid props) (region props)) = Inr (p, t1)" .
  from c have ne: "nid \<noteq> []" by (simp add: new_construct_Inr_iff add_child_Inr_iff)
  have "set (paths t1) \<subseteq> set (paths t5)"
    using waf_new_paths [OF s2] role_new_paths [OF s3] nodejs_function_new_paths [OF s4]
      current_version_paths [OF s5] by auto
  with new_construct_paths [OF c] new_construct_path [OF c] add_resource_suppressions_paths [OF s6] ne s
  show ?thesis by auto
qed

subsection \<open>Evaluating a construction at a fresh site\<close>

lemma us_region_stack_new_site:
  assumes "fresh_stack_site t scope nid props"
  shows "us_region_stack_new cfg t scope nid props =
    Inr (\<lparr>stackPath = scope @ [sanitize_id nid],
          wafAttrArn = GetAtt (scope @ [sanitize_id nid, sanitize_id nid @ ''-CloudFrontFireWall'', ''WebAcl'']) ''Arn'',
          edgeFnVersion = scope @ [sanitize_id nid, sanitize_id nid @ ''-LambdaEdgeFunction'', ''CurrentVersion'']\<rparr>,
         t @ us_region_description cfg (scope @ [sanitize_id nid]) (sanitize_id nid) (stack_name_of scope nid props) (region props))"
  using assms by (simp add: fresh_stack_site_def us_region_stack_new_eq)

lemma fresh_stack_site_lookup:
  assumes "fresh_stack_site t scope nid props" and "prefix (scope @ [sanitize_id nid]) q"
  shows "lookup t q = None"
  using assms ctree_wf_fresh_below [of t "scope @ [sanitize_id nid]"]
  by (auto simp add: fresh_stack_site_def lookup_None_iff)

lemma res_at_site:
  assumes "fresh_stack_site t scope nid props" and "prefix (scope @ [sanitize_id nid]) q"
  shows "res_at (t @ xs) q = map_option res (map_of xs q)"
  using fresh_stack_site_lookup [OF assms] by (simp add: res_at_def lookup_append)

lemma fresh_stack_site_below:
  assumes "fresh_stack_site t scope nid props" and "prefix (scope @ [sanitize_id nid]) q"
  shows "q \<notin> set (paths t)"
  using fresh_stack_site_lookup [OF assms] by (simp add: lookup_None_iff)

text \<open>The tree at a fresh site after the constructor is well formed.\<close>

lemma us_region_description_wf:
  assumes site: "fresh_stack_site t scope nid props"
  shows "ctree_wf (t @ us_region_description cfg (scope @ [sanitize_id nid]) (sanitize_id nid) (stack_name_of scope nid props) (region props))"
proof (rule ctree_wf_append_extension)
  show "ctree_wf t" using site by (simp add: fresh_stack_site_def)
  have below: "\<And>q. prefix (scope @ [sanitize_id nid]) q \<Longrightarrow> q \<notin> set (paths t)"
    using fresh_stack_site_below [OF site] .
  have "scope \<in> set (paths t)" and "nid \<noteq> []" using site by (simp_all add: fresh_stack_site_def)
  then show "wf_extension (paths t)
      (map fst (us_region_description cfg (scope @ [sanitize_id nid]) (sanitize_id nid) (stack_name_of scope nid props) (region props)))"
    using below by (simp add: us_region_description_def Let_def butlast_append)
qed

lemmas site_simps = us_region_stack_new_site res_at_site us_region_description_def Let_def mk_node_def

end
