(* ===== verification/Construct_Refs.thy ===== *)
theory Construct_Refs
  imports Us_Region_Stack
begin

text \<open>
  The references between constructs that the stack wires together: the web ACL's rule
  names its IP set; a function names its execution role and caches its current version;
  the \<open>AWS::Lambda::Function\<close> names the role; a version and its
  \<open>AWS::Lambda::Version\<close> name their function. In TypeScript these are typed object
  references (\<open>Role\<close>, \<open>Version\<close>, \<open>IFunction\<close>); in the model they are paths, and
  \<open>refs_ok\<close> is the typing judgement that every path a construct holds leads to a construct
  of the type the reference has. The root theory proves that the constructor keeps it.
\<close>

fun is_role :: "resource option \<Rightarrow> bool" where
  "is_role (Some (RoleR _)) = True"
| "is_role _ = False"

fun is_function :: "resource option \<Rightarrow> bool" where
  "is_function (Some (FunctionR _ _)) = True"
| "is_function _ = False"

fun is_ip_set :: "resource option \<Rightarrow> bool" where
  "is_ip_set (Some (CfnIPSetR _ _)) = True"
| "is_ip_set _ = False"

fun ref_ok :: "ctree_c \<Rightarrow> cpath \<Rightarrow> resource \<Rightarrow> bool" where
  "ref_ok t p (CfnWebACLR _ _ ip) \<longleftrightarrow> is_ip_set (res_at t ip)"
| "ref_ok t p (FunctionR props v) \<longleftrightarrow>
     is_role (res_at t (role props)) \<and> (case v of None \<Rightarrow> True | Some v \<Rightarrow> res_at t v = Some (VersionR p))"
| "ref_ok t p (CfnFunctionR c) \<longleftrightarrow> is_role (res_at t (cfnRole c))"
| "ref_ok t p (VersionR f) \<longleftrightarrow> is_function (res_at t f)"
| "ref_ok t p (CfnVersionR f) \<longleftrightarrow> is_function (res_at t f)"
| "ref_ok t p _ \<longleftrightarrow> True"

definition refs_ok :: "ctree_c \<Rightarrow> bool" where
  "refs_ok t \<longleftrightarrow> list_all (\<lambda>(p, n). ref_ok t p (res n)) t"

subsection \<open>Lemmas\<close>

lemma res_at_append_defined:
  "res_at t q \<noteq> None \<Longrightarrow> res_at (t @ xs) q = res_at t q"
  by (auto simp add: res_at_def lookup_append)

lemma is_role_defined: "is_role r \<Longrightarrow> r \<noteq> None"
  by (cases r rule: is_role.cases) auto

lemma is_function_defined: "is_function r \<Longrightarrow> r \<noteq> None"
  by (cases r rule: is_function.cases) auto

lemma is_ip_set_defined: "is_ip_set r \<Longrightarrow> r \<noteq> None"
  by (cases r rule: is_ip_set.cases) auto

text \<open>A reference that holds keeps holding when constructs are added.\<close>

lemma ref_ok_append: "ref_ok t p r \<Longrightarrow> ref_ok (t @ xs) p r"
  by (cases "(t, p, r)" rule: ref_ok.cases)
     (auto simp add: res_at_append_defined is_role_defined is_function_defined is_ip_set_defined
        split: option.splits)

lemma refs_ok_append:
  assumes "refs_ok t" and "list_all (\<lambda>(p, n). ref_ok (t @ xs) p (res n)) xs"
  shows "refs_ok (t @ xs)"
  using assms ref_ok_append by (auto simp add: refs_ok_def list_all_iff)

end
