(* ===== verification/Nag_Loop.thy ===== *)
theory Nag_Loop
  imports Nag
begin

text \<open>
  What the loop of \<open>NagSuppressions.addResourceSuppressions\<close> computes.
  \<open>suppression_visits\<close> lists the constructs the loop visits: each construct given and, with
  \<open>applyToChildren\<close>, its \<open>findAll()\<close>. \<open>default_target\<close> is the construct whose metadata a
  visit changes: the default child if there is one, else the construct itself.
  \<open>visit_error\<close> is the exception a visit throws: an ambiguous default child, or a
  CloudFormation target with an invalid suppression.
  \<open>suppress_marked\<close> adds the suppressions to the CloudFormation resources at a set of paths.
  The loop equals, in one pass over the tree:
  \<^item> the error of the first visit that throws, if any;
  \<^item> otherwise the marking of the targets of all visits.
  Neither the error nor the targets depend on what earlier visits wrote. So the loop is
  idempotent, and every resource below the given constructs reads back the suppressions
  written. When no CloudFormation resource has children, the loop refines the reference
  \<open>suppress_below\<close>: the suppressions reach exactly the CloudFormation resources below the
  given constructs.
\<close>

definition ambiguous_default :: "ctree_c \<Rightarrow> cpath \<Rightarrow> bool" where
  "ambiguous_default t q \<longleftrightarrow>
     lookup t (q @ [''Resource'']) \<noteq> None \<and> lookup t (q @ [''Default'']) \<noteq> None"

definition default_target :: "ctree_c \<Rightarrow> cpath \<Rightarrow> cpath" where
  "default_target t q =
     (if lookup t (q @ [''Resource'']) \<noteq> None then q @ [''Resource'']
      else if lookup t (q @ [''Default'']) \<noteq> None then q @ [''Default''] else q)"

definition cfn_target :: "ctree_c \<Rightarrow> cpath \<Rightarrow> bool" where
  "cfn_target t q \<longleftrightarrow> (case res_at t (default_target t q) of Some r \<Rightarrow> is_cfn_resource r | None \<Rightarrow> False)"

text \<open>The exception a visit throws: an ambiguous default child, or invalid suppressions
  for a CloudFormation resource.\<close>

definition visit_error :: "ctree_c \<Rightarrow> nag_pack_suppression list \<Rightarrow> cpath \<Rightarrow> cdk_error option" where
  "visit_error t sups q =
     (if ambiguous_default t q then Some (AmbiguousDefaultChild q)
      else if cfn_target t q \<and> \<not> list_all valid_suppression sups
      then Some (InvalidSuppression (default_target t q))
      else None)"

definition suppression_visits :: "ctree_c \<Rightarrow> cpath list \<Rightarrow> bool \<Rightarrow> cpath list" where
  "suppression_visits t cs apply_children =
     concat (map (\<lambda>c. if apply_children then find_all t c else [c]) cs)"

definition add_suppressions_node :: "nag_pack_suppression list \<Rightarrow> cnode \<Rightarrow> cnode" where
  "add_suppressions_node sups n = n\<lparr>nagMetadata := add_rules (nagMetadata n) sups\<rparr>"

definition suppress_marked :: "nag_pack_suppression list \<Rightarrow> cpath set \<Rightarrow> ctree_c \<Rightarrow> ctree_c" where
  "suppress_marked sups S t =
     map (\<lambda>(p, n). (p, if p \<in> S \<and> is_cfn_resource (res n) then add_suppressions_node sups n else n)) t"

text \<open>The reference: every CloudFormation resource below one of \<open>cs\<close> gets the suppressions.\<close>

definition suppress_below :: "ctree_c \<Rightarrow> cpath list \<Rightarrow> nag_pack_suppression list \<Rightarrow> ctree_c" where
  "suppress_below t cs sups =
     map (\<lambda>(p, n). (p, if list_ex (\<lambda>c. prefix c p) cs \<and> is_cfn_resource (res n)
                      then add_suppressions_node sups n else n)) t"

definition cfn_leaves :: "ctree_c \<Rightarrow> bool" where
  "cfn_leaves t \<longleftrightarrow>
     (\<forall>(p, n) \<in> set t. is_cfn_resource (res n) \<longrightarrow> (\<forall>q \<in> set (paths t). \<not> strict_prefix p q))"

definition nag_meta_distinct :: "ctree_c \<Rightarrow> bool" where
  "nag_meta_distinct t \<longleftrightarrow> list_all (\<lambda>(p, n). distinct (nagMetadata n)) t"

text \<open>Examples: a role with its \<open>AWS::IAM::Role\<close>, and the same with a second default child.\<close>

definition nag_example :: ctree_c where
  "nag_example =
     [([], mk_node AppR),
      ([''Role''], mk_node (RoleR \<lparr>assumedBy = ServicePrincipal ''lambda.amazonaws.com'', managedPolicies = []\<rparr>)),
      ([''Role'', ''Resource''], mk_node (CfnRoleR [''lambda.amazonaws.com''] []))]"

definition nag_example_ambiguous :: ctree_c where
  "nag_example_ambiguous = nag_example @ [([''Role'', ''Default''], mk_node (CfnRoleR [] []))]"

definition nag_example_sups :: "nag_pack_suppression list" where
  "nag_example_sups = [\<lparr>ruleId = ''AwsSolutions-IAM4'', reason = ''managed policies reviewed''\<rparr>]"

definition nag_example_short_reason :: "nag_pack_suppression list" where
  "nag_example_short_reason = [\<lparr>ruleId = ''AwsSolutions-IAM4'', reason = ''reviewed''\<rparr>]"

subsection \<open>The marking\<close>

lemma paths_suppress_marked [simp]: "paths (suppress_marked sups S t) = paths t"
  by (induction t) (auto simp add: suppress_marked_def paths_def)

lemma lookup_suppress_marked:
  "lookup (suppress_marked sups S t) p =
     map_option (\<lambda>n. if p \<in> S \<and> is_cfn_resource (res n) then add_suppressions_node sups n else n) (lookup t p)"
  by (induction t) (auto simp add: suppress_marked_def lookup_def)

lemma lookup_suppress_marked_None [simp]:
  "lookup (suppress_marked sups S t) p = None \<longleftrightarrow> lookup t p = None"
  by (simp add: lookup_suppress_marked)

lemma res_add_suppressions_node [simp]: "res (add_suppressions_node sups n) = res n"
  by (simp add: add_suppressions_node_def)

lemma res_at_suppress_marked [simp]: "res_at (suppress_marked sups S t) p = res_at t p"
  by (cases "lookup t p") (simp_all add: res_at_def lookup_suppress_marked)

lemma suppress_marked_empty [simp]: "suppress_marked sups {} t = t"
  by (induction t) (auto simp add: suppress_marked_def)

lemma find_all_suppress_marked [simp]: "find_all (suppress_marked sups S t) c = find_all t c"
  by (simp add: find_all_def)

lemma ambiguous_default_suppress_marked [simp]:
  "ambiguous_default (suppress_marked sups S t) = ambiguous_default t"
  by (simp add: fun_eq_iff ambiguous_default_def)

lemma default_target_suppress_marked [simp]:
  "default_target (suppress_marked sups S t) = default_target t"
  by (simp add: fun_eq_iff default_target_def)

lemma cfn_target_suppress_marked [simp]: "cfn_target (suppress_marked sups S t) = cfn_target t"
  by (simp add: fun_eq_iff cfn_target_def)

lemma visit_error_suppress_marked [simp]: "visit_error (suppress_marked sups S t) = visit_error t"
  by (simp add: fun_eq_iff visit_error_def)

lemma suppression_visits_suppress_marked [simp]:
  "suppression_visits (suppress_marked sups S t) cs b = suppression_visits t cs b"
  by (simp only: suppression_visits_def find_all_suppress_marked)

lemma suppression_visits_Cons:
  "suppression_visits t (c # cs) b = (if b then find_all t c else [c]) @ suppression_visits t cs b"
  by (simp add: suppression_visits_def)

lemma add_suppressions_node_idem [simp]:
  "add_suppressions_node sups (add_suppressions_node sups n) = add_suppressions_node sups n"
  by (simp add: add_suppressions_node_def add_rules_idem)


lemma add_suppressions_node_fun:
  "(\<lambda>n. n\<lparr>nagMetadata := add_rules (nagMetadata n) sups\<rparr>) = add_suppressions_node sups"
  by (simp add: fun_eq_iff add_suppressions_node_def)

lemma suppress_marked_insert:
  assumes "distinct (paths t)"
  shows "suppress_marked sups (insert d S) t =
    (case res_at t d of
       Some r \<Rightarrow> if is_cfn_resource r then update_node (suppress_marked sups S t) d (add_suppressions_node sups)
                 else suppress_marked sups S t
     | None \<Rightarrow> suppress_marked sups S t)"
proof (cases "lookup t d")
  case None
  then have "\<forall>(p, n) \<in> set t. p \<noteq> d" by (force simp add: lookup_None_iff paths_def)
  then show ?thesis
    using None by (auto simp add: suppress_marked_def res_at_def intro!: map_cong)
next
  case (Some n)
  have uniq: "n' = n" if "(d, n') \<in> set t" for n'
    using assms Some that by (simp add: lookup_def paths_def)
  show ?thesis
    using Some uniq by (auto simp add: suppress_marked_def update_node_def res_at_def intro!: map_cong)
qed

subsection \<open>Default children\<close>

lemma default_child_suppress_marked [simp]:
  "default_child (suppress_marked sups S t) q = default_child t q"
  by (simp add: default_child_def lookup_suppress_marked split: option.splits)

lemma default_child_ambiguous:
  "ambiguous_default t q \<Longrightarrow> default_child t q = Inl (AmbiguousDefaultChild q)"
  by (auto simp add: default_child_def ambiguous_default_def split: option.splits)

lemma default_child_target:
  "\<not> ambiguous_default t q \<Longrightarrow>
     \<exists>dc. default_child t q = Inr dc \<and> (case dc of Some d \<Rightarrow> d | None \<Rightarrow> q) = default_target t q"
  by (auto simp add: default_child_def ambiguous_default_def default_target_def split: option.splits)

lemma prefix_default_target: "prefix q (default_target t q)"
  by (simp add: default_target_def)

subsection \<open>The loop\<close>

lemma suppress_one_marked:
  assumes "distinct (paths t)"
  shows "suppress_one sups (suppress_marked sups S t) q =
    (case visit_error t sups q of
       Some e \<Rightarrow> Inl e
     | None \<Rightarrow> Inr (suppress_marked sups (insert (default_target t q) S) t))"
proof (cases "ambiguous_default t q")
  case True
  then show ?thesis by (simp add: suppress_one_def default_child_ambiguous visit_error_def)
next
  case False
  then obtain dc where dc: "default_child t q = Inr dc"
    and l1: "(case dc of Some d \<Rightarrow> d | None \<Rightarrow> q) = default_target t q"
    using default_child_target by blast
  show ?thesis
    using False dc l1 suppress_marked_insert [OF assms, of sups "default_target t q" S]
    by (auto simp add: suppress_one_def visit_error_def cfn_target_def add_suppressions_node_fun
        split: option.splits)
qed

lemma foldE_suppress_one_marked:
  assumes "distinct (paths t)"
  shows "foldE (suppress_one sups) qs (suppress_marked sups S t) =
    (case first_error (visit_error t sups) qs of
       Some e \<Rightarrow> Inl e
     | None \<Rightarrow> Inr (suppress_marked sups (S \<union> default_target t ` set qs) t))"
proof (induction qs arbitrary: S)
  case Nil
  then show ?case by simp
next
  case (Cons q qs)
  then show ?case by (simp add: suppress_one_marked [OF assms] split: option.split)
qed

lemma foldE_visits_marked:
  assumes "distinct (paths t)"
  shows "foldE (\<lambda>s c. foldE (suppress_one sups) (if b then find_all s c else [c]) s) cs (suppress_marked sups S t) =
    (case first_error (visit_error t sups) (suppression_visits t cs b) of
       Some e \<Rightarrow> Inl e
     | None \<Rightarrow> Inr (suppress_marked sups (S \<union> default_target t ` set (suppression_visits t cs b)) t))"
proof (induction cs arbitrary: S)
  case Nil
  then show ?case by (simp add: suppression_visits_def)
next
  case (Cons c cs)
  have inner: "foldE (suppress_one sups) (if b then find_all (suppress_marked sups S t) c else [c]) (suppress_marked sups S t) =
    (case first_error (visit_error t sups) (if b then find_all t c else [c]) of
       Some e \<Rightarrow> Inl e
     | None \<Rightarrow> Inr (suppress_marked sups (S \<union> default_target t ` set (if b then find_all t c else [c])) t))"
    by (simp only: find_all_suppress_marked foldE_suppress_one_marked [OF assms])
  show ?case
    by (cases "first_error (visit_error t sups) (if b then find_all t c else [c])")
       (simp_all add: inner Cons.IH suppression_visits_Cons first_error_append Un_assoc image_Un
        cong: option.case_cong)
qed

text \<open>The loop computed in one pass: its first error, or the marking of all targets.\<close>

lemma add_resource_suppressions_eq:
  assumes "distinct (paths t)"
  shows "add_resource_suppressions t cs sups b =
    (if cs = [] then Inl EmptyConstructArray
     else case first_error (visit_error t sups) (suppression_visits t cs b) of
       Some e \<Rightarrow> Inl e
     | None \<Rightarrow> Inr (suppress_marked sups (default_target t ` set (suppression_visits t cs b)) t))"
  using foldE_visits_marked [OF assms, of sups b cs "{}"]
  by (simp add: add_resource_suppressions_def cong: option.case_cong)

lemma add_resource_suppressions_Inr:
  assumes "distinct (paths t)" and "add_resource_suppressions t cs sups b = Inr t'"
  shows "cs \<noteq> [] \<and> list_all (\<lambda>q. visit_error t sups q = None) (suppression_visits t cs b) \<and>
    t' = suppress_marked sups (default_target t ` set (suppression_visits t cs b)) t"
  using assms(2)
  by (auto simp add: add_resource_suppressions_eq [OF assms(1)] first_error_None_iff [symmetric]
      split: if_splits option.splits)

text \<open>A successful run that reached a CloudFormation resource had valid suppressions.\<close>

lemma add_resource_suppressions_valid:
  assumes "distinct (paths t)" and "add_resource_suppressions t cs sups b = Inr t'"
    and "q \<in> set (suppression_visits t cs b)" and "cfn_target t q"
  shows "list_all valid_suppression sups"
  using add_resource_suppressions_Inr [OF assms(1,2)] assms(3,4)
  by (auto simp add: list_all_iff visit_error_def split: if_splits)

lemma suppress_marked_idem:
  "suppress_marked sups S (suppress_marked sups S t) = suppress_marked sups S t"
  by (induction t) (auto simp add: suppress_marked_def)

subsection \<open>The reference\<close>

lemma cfn_leaf_default_target:
  assumes "cfn_leaves t" and "(p, n) \<in> set t" and "is_cfn_resource (res n)"
  shows "default_target t p = p"
proof -
  have "\<forall>q \<in> set (paths t). \<not> strict_prefix p q" using assms by (auto simp add: cfn_leaves_def)
  then have "lookup t (p @ [x]) = None" for x by (auto simp add: lookup_None_iff strict_prefix_def)
  then show ?thesis by (simp add: default_target_def)
qed

lemma set_suppression_visits_children:
  "set (suppression_visits t cs True) = {q \<in> set (paths t). \<exists>c \<in> set cs. prefix c q}"
  by (auto simp add: suppression_visits_def set_find_all)

lemma suppress_marked_visits_below:
  assumes "cfn_leaves t"
  shows "suppress_marked sups (default_target t ` set (suppression_visits t cs True)) t = suppress_below t cs sups"
proof -
  have iff: "p \<in> default_target t ` set (suppression_visits t cs True) \<longleftrightarrow> list_ex (\<lambda>c. prefix c p) cs"
    if pn: "(p, n) \<in> set t" and cfn: "is_cfn_resource (res n)" for p n
  proof
    assume "p \<in> default_target t ` set (suppression_visits t cs True)"
    then obtain q c where "c \<in> set cs" "prefix c q" "p = default_target t q"
      by (auto simp add: set_suppression_visits_children)
    then show "list_ex (\<lambda>c. prefix c p) cs"
      using prefix_default_target [of q t] by (auto simp add: list_ex_iff intro: prefix_order.trans)
  next
    assume "list_ex (\<lambda>c. prefix c p) cs"
    moreover have "p \<in> set (paths t)" using pn by (force simp add: paths_def)
    moreover have "default_target t p = p" using cfn_leaf_default_target [OF assms pn cfn] .
    ultimately show "p \<in> default_target t ` set (suppression_visits t cs True)"
      by (auto simp add: set_suppression_visits_children list_ex_iff image_iff intro: exI [of _ p])
  qed
  show ?thesis
    unfolding suppress_marked_def suppress_below_def
    apply (rule map_cong [OF refl])
    apply clarify
    subgoal for p n using iff [of p n] by auto
    done
qed

lemma lookup_suppress_below:
  "lookup (suppress_below t cs sups) p =
     map_option (\<lambda>n. if list_ex (\<lambda>c. prefix c p) cs \<and> is_cfn_resource (res n)
                     then add_suppressions_node sups n else n) (lookup t p)"
  by (induction t) (auto simp add: suppress_below_def lookup_def)

lemma suppresses_add_suppressions_node:
  "suppresses (add_suppressions_node sups n) rid \<longleftrightarrow>
     suppresses n rid \<or> list_ex (\<lambda>s. ruleId s = rid) sups"
  by (auto simp add: suppresses_def add_suppressions_node_def list_ex_iff)

lemma suppress_one_cases:
  "suppress_one sups t q = Inr t' \<Longrightarrow> t' = t \<or> (\<exists>p. t' = update_node t p (add_suppressions_node sups))"
  by (auto simp add: suppress_one_def Let_def add_suppressions_node_fun split: option.splits if_splits)

lemma update_node_meta_distinct:
  "nag_meta_distinct t \<Longrightarrow> nag_meta_distinct (update_node t p (add_suppressions_node sups))"
  by (auto simp add: nag_meta_distinct_def update_node_def list_all_iff add_suppressions_node_def
      distinct_add_rules)

lemma suppress_one_meta_distinct:
  "nag_meta_distinct t \<Longrightarrow> suppress_one sups t q = Inr t' \<Longrightarrow> nag_meta_distinct t'"
  using suppress_one_cases update_node_meta_distinct by metis

lemma nag_example_distinct: "distinct (paths nag_example)"
  by (simp add: nag_example_def paths_def)

lemma nag_example_sups_valid: "list_all valid_suppression nag_example_sups"
  by (simp add: nag_example_sups_def valid_suppression_def)

lemma nag_example_runs:
  "\<exists>t'. add_resource_suppressions nag_example [[''Role'']] nag_example_sups True = Inr t'"
  by (simp only: add_resource_suppressions_eq [OF nag_example_distinct])
     (simp add: suppression_visits_def find_all_def visit_error_def ambiguous_default_def lookup_def
      nag_example_def paths_def nag_example_sups_valid)

lemma nag_example_leaves: "cfn_leaves nag_example"
  by (simp add: cfn_leaves_def nag_example_def paths_def mk_node_def)

lemma nag_example_unambiguous:
  "\<not> list_ex (ambiguous_default nag_example) (suppression_visits nag_example [[''Role'']] True)"
  by (simp add: suppression_visits_def find_all_def ambiguous_default_def lookup_def nag_example_def paths_def)

subsection \<open>Properties of the loop\<close>

text \<open>C13. \<open>addResourceSuppressions\<close> is idempotent: running it again with the same
  constructs and suppressions on the tree it produced succeeds and changes nothing.\<close>

theorem add_resource_suppressions_idem:
  assumes "distinct (paths t)" and "add_resource_suppressions t cs sups b = Inr t'"
  shows "add_resource_suppressions t' cs sups b = Inr t'"
proof -
  let ?T = "default_target t ` set (suppression_visits t cs b)"
  from add_resource_suppressions_Inr [OF assms]
  have cs: "cs \<noteq> []" and ok: "list_all (\<lambda>q. visit_error t sups q = None) (suppression_visits t cs b)"
    and t': "t' = suppress_marked sups ?T t" by blast+
  have none: "first_error (visit_error t sups) (suppression_visits t cs b) = None"
    using ok by (simp add: first_error_None_iff)
  have "distinct (paths (suppress_marked sups ?T t))" using assms(1) by simp
  then show ?thesis
    unfolding t' using cs none by (simp add: add_resource_suppressions_eq suppress_marked_idem)
qed

theorem add_resource_suppressions_idem_witness:
  "distinct (paths nag_example) \<and>
   (\<exists>t'. add_resource_suppressions nag_example [[''Role'']] nag_example_sups True = Inr t' \<and>
         add_resource_suppressions t' [[''Role'']] nag_example_sups True = Inr t')"
proof -
  obtain t' where run: "add_resource_suppressions nag_example [[''Role'']] nag_example_sups True = Inr t'"
    using nag_example_runs by blast
  show ?thesis
    using nag_example_distinct run add_resource_suppressions_idem [OF nag_example_distinct run] by blast
qed

text \<open>C15. With \<open>applyToChildren\<close>, when the suppressions are valid, no visited construct has
  both a \<open>Resource\<close> and a \<open>Default\<close> child and no CloudFormation resource has children,
  the loop succeeds and adds
  the suppressions to exactly the CloudFormation resources below the given constructs,
  each once: it refines the one-pass reference \<open>suppress_below\<close>.\<close>

theorem add_resource_suppressions_refines:
  assumes "distinct (paths t)" and "cfn_leaves t" and "cs \<noteq> []"
    and "\<not> list_ex (ambiguous_default t) (suppression_visits t cs True)"
    and "list_all valid_suppression sups"
  shows "add_resource_suppressions t cs sups True = Inr (suppress_below t cs sups)"
proof -
  have "first_error (visit_error t sups) (suppression_visits t cs True) = None"
    using assms(4,5) by (auto simp add: first_error_None_iff visit_error_def list_ex_iff list_all_iff)
  then show ?thesis
    using assms(3)
    by (simp add: add_resource_suppressions_eq [OF assms(1)] suppress_marked_visits_below [OF assms(2)])
qed

theorem add_resource_suppressions_refines_witness:
  "distinct (paths nag_example) \<and> cfn_leaves nag_example \<and> [[''Role'']] \<noteq> [] \<and>
   \<not> list_ex (ambiguous_default nag_example) (suppression_visits nag_example [[''Role'']] True) \<and>
   list_all valid_suppression nag_example_sups \<and>
   add_resource_suppressions nag_example [[''Role'']] nag_example_sups True =
     Inr (suppress_below nag_example [[''Role'']] nag_example_sups)"
  using nag_example_distinct nag_example_leaves nag_example_unambiguous nag_example_sups_valid
    add_resource_suppressions_refines [OF nag_example_distinct nag_example_leaves _ nag_example_unambiguous
      nag_example_sups_valid]
  by simp

text \<open>C16. \<open>addResourceSuppressions\<close> throws exactly when the array of constructs is empty
  (\<open>Construct cannot be an empty array\<close>), or when a visit throws: the visited construct
  has both a \<open>Resource\<close> and a \<open>Default\<close> child, or its target is a CloudFormation
  resource and a suppression is invalid. The error is that of the first such visit in the
  order of the visits.\<close>

theorem add_resource_suppressions_error:
  assumes "distinct (paths t)"
  shows "add_resource_suppressions t cs sups b = Inl e \<longleftrightarrow>
    (cs = [] \<and> e = EmptyConstructArray) \<or>
    (cs \<noteq> [] \<and> first_error (visit_error t sups) (suppression_visits t cs b) = Some e)"
  by (auto simp add: add_resource_suppressions_eq [OF assms] split: option.splits)

theorem add_resource_suppressions_error_witness:
  "distinct (paths nag_example_ambiguous) \<and>
   add_resource_suppressions nag_example_ambiguous [[''Role'']] nag_example_sups True =
     Inl (AmbiguousDefaultChild [''Role'']) \<and>
   distinct (paths nag_example) \<and>
   add_resource_suppressions nag_example [[''Role'']] nag_example_short_reason True =
     Inl (InvalidSuppression [''Role'', ''Resource''])"
proof -
  have d: "distinct (paths nag_example_ambiguous)"
    by (simp add: nag_example_ambiguous_def nag_example_def paths_def)
  have a: "add_resource_suppressions nag_example_ambiguous [[''Role'']] nag_example_sups True =
     Inl (AmbiguousDefaultChild [''Role''])"
    using add_resource_suppressions_error [OF d, of "[[''Role'']]" nag_example_sups True "AmbiguousDefaultChild [''Role'']"]
    by (simp add: suppression_visits_def find_all_def visit_error_def ambiguous_default_def lookup_def
        nag_example_ambiguous_def nag_example_def paths_def)
  have i: "add_resource_suppressions nag_example [[''Role'']] nag_example_short_reason True =
     Inl (InvalidSuppression [''Role'', ''Resource''])"
    using add_resource_suppressions_error [OF nag_example_distinct, of "[[''Role'']]" nag_example_short_reason True
        "InvalidSuppression [''Role'', ''Resource'']"]
    by (simp add: suppression_visits_def find_all_def visit_error_def ambiguous_default_def cfn_target_def
        default_target_def res_at_def lookup_def nag_example_def paths_def nag_example_short_reason_def
        valid_suppression_def mk_node_def)
  show ?thesis using d a nag_example_distinct i by blast
qed

text \<open>C17. Read after write: after the loop, every construct reads back its old
  suppressions, and a CloudFormation resource below the given constructs also reads back
  each suppression written with a reason that \<open>cdk-nag\<close> accepts.\<close>

theorem add_resource_suppressions_read_back:
  assumes "distinct (paths t)" and "cfn_leaves t"
    and "add_resource_suppressions t cs sups True = Inr t'" and "lookup t p = Some n"
  shows "\<exists>n'. lookup t' p = Some n' \<and> res n' = res n \<and>
    (\<forall>rid. suppresses n' rid \<longleftrightarrow> suppresses n rid \<or>
       (list_ex (\<lambda>c. prefix c p) cs \<and> is_cfn_resource (res n) \<and>
        list_ex (\<lambda>s. ruleId s = rid \<and> 10 \<le> length (reason s)) sups))"
proof -
  from add_resource_suppressions_Inr [OF assms(1,3)] suppress_marked_visits_below [OF assms(2)]
  have t': "t' = suppress_below t cs sups" by simp
  have valid: "list_all valid_suppression sups"
    if "list_ex (\<lambda>c. prefix c p) cs" and "is_cfn_resource (res n)"
  proof (rule add_resource_suppressions_valid [OF assms(1,3)])
    have pn: "(p, n) \<in> set t" using assms(4) by (simp add: lookup_def map_of_SomeD)
    then have "p \<in> set (paths t)" by (force simp add: paths_def)
    with that(1) show "p \<in> set (suppression_visits t cs True)"
      by (auto simp add: set_suppression_visits_children list_ex_iff)
    show "cfn_target t p"
      using cfn_leaf_default_target [OF assms(2) pn that(2)] assms(4) that(2)
      by (simp add: cfn_target_def res_at_def)
  qed
  show ?thesis
    using assms(4) valid
    by (auto simp add: t' lookup_suppress_below suppresses_add_suppressions_node list_ex_iff list_all_iff
        valid_suppression_def)
qed

theorem add_resource_suppressions_read_back_witness:
  "distinct (paths nag_example) \<and> cfn_leaves nag_example \<and>
   (\<exists>t'. add_resource_suppressions nag_example [[''Role'']] nag_example_sups True = Inr t' \<and>
     (\<exists>n'. lookup t' [''Role'', ''Resource''] = Some n' \<and> suppresses n' ''AwsSolutions-IAM4''))"
proof -
  obtain t' where run: "add_resource_suppressions nag_example [[''Role'']] nag_example_sups True = Inr t'"
    using nag_example_runs by blast
  have l: "lookup nag_example [''Role'', ''Resource''] = Some (mk_node (CfnRoleR [''lambda.amazonaws.com''] []))"
    by (simp add: nag_example_def lookup_def)
  from add_resource_suppressions_read_back [OF nag_example_distinct nag_example_leaves run l]
  obtain n' where "lookup t' [''Role'', ''Resource''] = Some n'" and "suppresses n' ''AwsSolutions-IAM4''"
    by (auto simp add: nag_example_sups_def mk_node_def)
  then show ?thesis using nag_example_distinct nag_example_leaves run by blast
qed

text \<open>C18. The loop keeps the invariant that every construct's \<open>cdk_nag\<close> metadata is free
  of duplicates.\<close>

theorem add_resource_suppressions_meta_distinct:
  assumes "nag_meta_distinct t" and "add_resource_suppressions t cs sups b = Inr t'"
  shows "nag_meta_distinct t'"
  using add_resource_suppressions_invariant [where P = nag_meta_distinct, OF _ assms]
    suppress_one_meta_distinct by blast

theorem add_resource_suppressions_meta_distinct_witness:
  "nag_meta_distinct nag_example \<and>
   (\<exists>t'. add_resource_suppressions nag_example [[''Role'']] nag_example_sups True = Inr t' \<and>
         nag_meta_distinct t')"
proof -
  have m: "nag_meta_distinct nag_example"
    by (simp add: nag_meta_distinct_def nag_example_def mk_node_def)
  obtain t' where run: "add_resource_suppressions nag_example [[''Role'']] nag_example_sups True = Inr t'"
    using nag_example_runs by blast
  show ?thesis using m run add_resource_suppressions_meta_distinct [OF m run] by blast
qed

end
