(* ===== verification/Deploy.thy ===== *)
theory Deploy
  imports Resources
begin

text \<open>
  How CloudFormation deploys the description the stack synthesises. The section on the
  stack in the specification leaves the order to the provisioning service: it creates a
  resource once every resource it references exists. The references come from the code:
  \<^item> the web ACL's rule names the IP set;
  \<^item> the function names the role (\<open>role: edgeFnRole\<close>, line 54 of the source), whose
    \<open>roleArn\<close> is an attribute of its \<open>AWS::IAM::Role\<close>;
  \<^item> the version names the function (\<open>lambdaEdgeFunction.currentVersion\<close>, line 57).
  \<open>cfn_deps\<close> lists these references; \<open>deploy_step\<close> is one creation by CloudFormation, a
  step relation on the set of created resources. The lemmas:
  \<^item> every reachable state is closed under the references, by rule induction;
  \<^item> no deployment runs forever, since each step creates a resource of the finite tree;
  \<^item> a list of resources in which each resource comes after the ones it references can be
    deployed in that order;
  \<^item> if the resources of a template have such an order, a deployment of it never gets
    stuck: every reachable state is complete or can take a step.
\<close>

fun cfn_deps :: "resource \<Rightarrow> cpath list" where
  "cfn_deps (CfnWebACLR _ _ ip) = [ip]"
| "cfn_deps (CfnFunctionR c) = [cfnRole c @ [''Resource'']]"
| "cfn_deps (CfnVersionR f) = [f @ [''Resource'']]"
| "cfn_deps _ = []"

text \<open>The CloudFormation resources of a stack: the level-1 constructs below its path.\<close>

definition cfn_resources :: "ctree_c \<Rightarrow> cpath \<Rightarrow> cpath list" where
  "cfn_resources t sp = map fst (filter (\<lambda>(p, n). prefix sp p \<and> is_cfn_resource (res n)) t)"

text \<open>The template of a stack: its CloudFormation resources with their properties.\<close>

definition stack_template :: "ctree_c \<Rightarrow> cpath \<Rightarrow> ctree_c" where
  "stack_template t sp = filter (\<lambda>(p, n). prefix sp p \<and> is_cfn_resource (res n)) t"

inductive deploy_step :: "ctree_c \<Rightarrow> cpath set \<Rightarrow> cpath set \<Rightarrow> bool" for t where
  create: "(p, n) \<in> set t \<Longrightarrow> is_cfn_resource (res n) \<Longrightarrow> p \<notin> D \<Longrightarrow>
     set (cfn_deps (res n)) \<subseteq> D \<Longrightarrow> deploy_step t D (insert p D)"

inductive_cases deploy_stepE: "deploy_step t D D'"

definition deps_closed :: "ctree_c \<Rightarrow> cpath set \<Rightarrow> bool" where
  "deps_closed t D \<longleftrightarrow>
     (\<forall>(p, n) \<in> set t. p \<in> D \<and> is_cfn_resource (res n) \<longrightarrow> set (cfn_deps (res n)) \<subseteq> D)"

text \<open>A creation order: each resource is new and comes after the resources it references.\<close>

fun deploy_order :: "cpath set \<Rightarrow> (cpath \<times> cnode) list \<Rightarrow> bool" where
  "deploy_order D [] = True"
| "deploy_order D ((p, n) # xs) \<longleftrightarrow>
     p \<notin> D \<and> set (cfn_deps (res n)) \<subseteq> D \<and> deploy_order (insert p D) xs"

subsection \<open>Lemmas\<close>

lemma deps_closedD:
  "deps_closed t D \<Longrightarrow> (p, n) \<in> set t \<Longrightarrow> p \<in> D \<Longrightarrow> is_cfn_resource (res n) \<Longrightarrow>
     set (cfn_deps (res n)) \<subseteq> D"
  unfolding deps_closed_def by fast

lemma deps_closedI:
  "(\<And>p n. (p, n) \<in> set t \<Longrightarrow> p \<in> D \<Longrightarrow> is_cfn_resource (res n) \<Longrightarrow> set (cfn_deps (res n)) \<subseteq> D) \<Longrightarrow>
     deps_closed t D"
  unfolding deps_closed_def by fast

lemma deploy_step_closed:
  assumes "distinct (paths t)" and "deploy_step t D D'" and "deps_closed t D"
  shows "deps_closed t D'"
  using assms(2)
proof (cases rule: deploy_step.cases)
  case (create p n)
  have uniq: "n' = n" if "(p, n') \<in> set t" for n'
    using assms(1) create(2) that by (simp add: paths_def eq_key_imp_eq_value)
  show ?thesis
    unfolding create(1)
  proof (rule deps_closedI)
    fix q m
    assume qm: "(q, m) \<in> set t" and q: "q \<in> insert p D" and cfn: "is_cfn_resource (res m)"
    show "set (cfn_deps (res m)) \<subseteq> insert p D"
    proof (cases "q = p")
      case True
      then show ?thesis using uniq qm create(5) by blast
    next
      case False
      then have "set (cfn_deps (res m)) \<subseteq> D" using deps_closedD [OF assms(3) qm _ cfn] q by blast
      then show ?thesis by blast
    qed
  qed
qed

lemma deploy_steps_closed:
  assumes "distinct (paths t)" and "(deploy_step t)\<^sup>*\<^sup>* D D'" and "deps_closed t D"
  shows "deps_closed t D'"
  using assms(2,3)
  by (induction rule: rtranclp_induct) (auto intro: deploy_step_closed [OF assms(1)])

lemma deps_closed_empty [simp]: "deps_closed t {}"
  by (simp add: deps_closed_def)

lemma deploy_order_steps:
  assumes "set xs \<subseteq> set t" and "\<forall>(p, n) \<in> set xs. is_cfn_resource (res n)" and "deploy_order D xs"
  shows "(deploy_step t)\<^sup>*\<^sup>* D (D \<union> fst ` set xs)"
  using assms
proof (induction D xs rule: deploy_order.induct)
  case (1 D)
  then show ?case by simp
next
  case (2 D p n xs)
  then have "deploy_step t D (insert p D)" by (auto intro: deploy_step.create)
  moreover have "(deploy_step t)\<^sup>*\<^sup>* (insert p D) (insert p D \<union> fst ` set xs)"
    using 2 by simp
  ultimately show ?case by (simp add: converse_rtranclp_into_rtranclp)
qed

lemma deploy_step_measure:
  assumes "deploy_step t D D'"
  shows "card (set (paths t) - D') < card (set (paths t) - D)"
  using assms
proof (cases rule: deploy_step.cases)
  case (create p n)
  have "p \<in> set (paths t)" using create(2) by (force simp add: paths_def)
  then have "set (paths t) - D' \<subset> set (paths t) - D" using create by auto
  then show ?thesis by (rule psubset_card_mono [rotated]) simp
qed

text \<open>No deployment runs forever: each creation adds a resource of the tree that was not
  created before.\<close>

lemma deploy_terminates: "wfp (\<lambda>D' D. deploy_step t D D')"
  by (rule wfp_if_convertible_to_nat [where f = "\<lambda>D. card (set (paths t) - D)"]) (rule deploy_step_measure)

lemma cfn_resources_stack_template: "cfn_resources t sp = map fst (stack_template t sp)"
  by (simp add: cfn_resources_def stack_template_def)

lemma stack_template_cfn: "\<forall>(p, n) \<in> set (stack_template t sp). is_cfn_resource (res n)"
  by (auto simp add: stack_template_def)

lemma deploy_order_append:
  "deploy_order D (xs @ ys) \<longleftrightarrow> deploy_order D xs \<and> deploy_order (D \<union> fst ` set xs) ys"
  by (induction D xs rule: deploy_order.induct) auto

lemma deploy_steps_subset:
  "(deploy_step t)\<^sup>*\<^sup>* D X \<Longrightarrow> X \<subseteq> D \<union> fst ` set t"
  by (induction rule: rtranclp_induct) (auto elim!: deploy_stepE intro: rev_image_eqI)

text \<open>Progress: in a template with a creation order, the first resource of that order not
  yet created can be created.\<close>

lemma deploy_progress:
  assumes cfn: "\<forall>(p, n) \<in> set t. is_cfn_resource (res n)" and ord: "deploy_order {} t"
    and sub: "X \<subseteq> fst ` set t" and ne: "X \<noteq> fst ` set t"
  shows "\<exists>X'. deploy_step t X X'"
proof -
  from sub ne have "\<exists>x \<in> set t. fst x \<notin> X" by auto
  then obtain ys p n zs where t: "t = ys @ (p, n) # zs" and p: "p \<notin> X"
    and before: "\<forall>y \<in> set ys. fst y \<in> X"
    using split_list_first_prop [of t "\<lambda>x. fst x \<notin> X"] by fastforce
  from ord have "set (cfn_deps (res n)) \<subseteq> fst ` set ys"
    unfolding t by (simp add: deploy_order_append)
  also have "\<dots> \<subseteq> X" using before by auto
  finally have deps: "set (cfn_deps (res n)) \<subseteq> X" .
  have "(p, n) \<in> set t" and "is_cfn_resource (res n)" using cfn t by auto
  then show ?thesis using p deps by (blast intro: deploy_step.create)
qed

lemma deploy_reachable_complete_or_step:
  assumes "\<forall>(p, n) \<in> set t. is_cfn_resource (res n)" and "deploy_order {} t"
    and "(deploy_step t)\<^sup>*\<^sup>* {} X"
  shows "X = fst ` set t \<or> (\<exists>X'. deploy_step t X X')"
  using deploy_progress [OF assms(1,2)] deploy_steps_subset [OF assms(3)] by blast

end
