(* ===== verification/Stack_Deploy.thy ===== *)
theory Stack_Deploy
  imports Us_Region_Stack Deploy
begin

text \<open>
  The deployment of the template the constructor synthesises. At a fresh site the template
  of the stack holds five CloudFormation resources, in creation order:
  \<^item> the IP set;
  \<^item> the web ACL, which references the IP set;
  \<^item> the role;
  \<^item> the function, which references the role;
  \<^item> the version, which references the function.
  That order is a creation order for CloudFormation. In every state a deployment can reach,
  each of the three references is already satisfied.
\<close>

abbreviation site_description :: "dev_config \<Rightarrow> cpath \<Rightarrow> string \<Rightarrow> stack_props \<Rightarrow> ctree_c" where
  "site_description cfg scope nid props \<equiv>
     us_region_description cfg (scope @ [sanitize_id nid]) (sanitize_id nid) (stack_name_of scope nid props) (region props)"

lemma cfn_resources_append: "cfn_resources (t @ xs) sp = cfn_resources t sp @ cfn_resources xs sp"
  by (simp add: cfn_resources_def)

lemma site_cfn_resources_before:
  assumes "fresh_stack_site t scope nid props"
  shows "cfn_resources t (scope @ [sanitize_id nid]) = []"
proof -
  have nb: "\<not> prefix (scope @ [sanitize_id nid]) p" if "(p, n) \<in> set t" for p n
    using fresh_stack_site_below [OF assms, of p] that by (force simp add: paths_def)
  have "filter (\<lambda>(p, n). prefix (scope @ [sanitize_id nid]) p \<and> is_cfn_resource (res n)) t = []"
    by (intro filter_False) (auto simp add: nb)
  then show ?thesis by (simp add: cfn_resources_def)
qed

lemma site_cfn_resources:
  assumes "fresh_stack_site t scope nid props"
  shows "cfn_resources (t @ site_description cfg scope nid props) (scope @ [sanitize_id nid]) =
    (let sp = scope @ [sanitize_id nid]; w = sp @ [sanitize_id nid @ ''-CloudFrontFireWall''];
         r = sp @ [sanitize_id nid @ ''-LambdaEdgeFunctionRole''];
         f = sp @ [sanitize_id nid @ ''-LambdaEdgeFunction''] in
     [w @ [''IpSet''], w @ [''WebAcl''], r @ [''Resource''], f @ [''Resource''], f @ [''CurrentVersion'', ''Resource'']])"
  unfolding cfn_resources_append site_cfn_resources_before [OF assms]
  by (simp add: cfn_resources_def us_region_description_def Let_def mk_node_def cfn_role_of_def)

lemma site_deploy_order:
  "deploy_order {} (filter (\<lambda>(p, n). is_cfn_resource (res n)) (site_description cfg scope nid props))"
  by (simp add: us_region_description_def Let_def mk_node_def cfn_role_of_def edge_fn_props_def
      cfn_function_of_def)

lemma site_deployable:
  assumes "fresh_stack_site t scope nid props"
  shows "(deploy_step (t @ site_description cfg scope nid props))\<^sup>*\<^sup>* {}
     (set (cfn_resources (t @ site_description cfg scope nid props) (scope @ [sanitize_id nid])))"
proof -
  let ?D = "site_description cfg scope nid props"
  let ?xs = "filter (\<lambda>(p, n). is_cfn_resource (res n)) ?D"
  have "(deploy_step (t @ ?D))\<^sup>*\<^sup>* {} ({} \<union> fst ` set ?xs)"
    by (rule deploy_order_steps) (auto simp add: site_deploy_order)
  moreover have "fst ` set ?xs = set (cfn_resources (t @ ?D) (scope @ [sanitize_id nid]))"
    unfolding site_cfn_resources [OF assms]
    by (simp add: us_region_description_def Let_def mk_node_def cfn_role_of_def insert_commute)
  ultimately show ?thesis by simp
qed

lemma site_deps_closed:
  assumes "fresh_stack_site t scope nid props" and "deps_closed (t @ site_description cfg scope nid props) X"
  shows "(let sp = scope @ [sanitize_id nid]; w = sp @ [sanitize_id nid @ ''-CloudFrontFireWall''];
         r = sp @ [sanitize_id nid @ ''-LambdaEdgeFunctionRole''];
         f = sp @ [sanitize_id nid @ ''-LambdaEdgeFunction''] in
     (f @ [''CurrentVersion'', ''Resource''] \<in> X \<longrightarrow> f @ [''Resource''] \<in> X) \<and>
     (f @ [''Resource''] \<in> X \<longrightarrow> r @ [''Resource''] \<in> X) \<and>
     (w @ [''WebAcl''] \<in> X \<longrightarrow> w @ [''IpSet''] \<in> X))"
proof -
  let ?sp = "scope @ [sanitize_id nid]"
  let ?w = "?sp @ [sanitize_id nid @ ''-CloudFrontFireWall'']"
  let ?r = "?sp @ [sanitize_id nid @ ''-LambdaEdgeFunctionRole'']"
  let ?f = "?sp @ [sanitize_id nid @ ''-LambdaEdgeFunction'']"
  let ?T = "t @ site_description cfg scope nid props"
  have m: "(?f @ [''CurrentVersion'', ''Resource''], mk_node (CfnVersionR ?f)) \<in> set ?T"
    "(?f @ [''Resource''], mk_node (CfnFunctionR (cfn_function_of (edge_fn_props ?r) 5))) \<in> set ?T"
    "(?w @ [''WebAcl''], mk_node (CfnWebACLR (waf_scope_of (cloudfront_waf_props cfg)) Block (?w @ [''IpSet'']))) \<in> set ?T"
    by (simp_all add: us_region_description_def Let_def)
  show ?thesis
    using deps_closedD [OF assms(2) m(1)] deps_closedD [OF assms(2) m(2)] deps_closedD [OF assms(2) m(3)]
    by (simp add: Let_def mk_node_def edge_fn_props_def cfn_function_of_def)
qed

text \<open>The template of the stack at a fresh site is the list of its five CloudFormation
  resources in creation order, which is a creation order for CloudFormation.\<close>

lemma site_stack_template:
  assumes "fresh_stack_site t scope nid props"
  shows "stack_template (t @ site_description cfg scope nid props) (scope @ [sanitize_id nid]) =
    filter (\<lambda>(p, n). is_cfn_resource (res n)) (site_description cfg scope nid props)"
proof -
  have "cfn_resources t (scope @ [sanitize_id nid]) = []" using site_cfn_resources_before [OF assms] .
  then have "stack_template t (scope @ [sanitize_id nid]) = []"
    by (simp add: cfn_resources_stack_template)
  then show ?thesis
    by (simp add: stack_template_def us_region_description_def Let_def)
qed

lemma site_template_deploy_order:
  assumes "fresh_stack_site t scope nid props"
  shows "deploy_order {} (stack_template (t @ site_description cfg scope nid props) (scope @ [sanitize_id nid]))"
  unfolding site_stack_template [OF assms] by (rule site_deploy_order)

end
