(* ===== verification/Stack_Contract.thy ===== *)
theory Stack_Contract
  imports Us_Region_Stack
begin

text \<open>
  The contract of the stack as the specification states it (its section on testable
  properties), and what a consumer of the stack can observe of it. The consumer holds only
  the two exposed values, \<open>wafAttrArn\<close> and \<open>edgeFnVersion\<close>. \<open>observe\<close> follows them
  through the synthesised tree:
  \<^item> from the web ACL to its IP set;
  \<^item> from the version to its function, which must cache that same version (no divergent
    copy);
  \<^item> from the function to its \<open>AWS::Lambda::Function\<close> and the role it runs under.
  \<open>meets_spec\<close> is the contract in the words of the specification:
  \<^item> the firewall references exactly the allow-list, is configured for CloudFront, and
    denies everything else;
  \<^item> the role trusts exactly two identities and references exactly two managed policies;
  \<^item> the function has 1024 MB and a 5 s timeout.
\<close>

record stack_contract =
  fw_scope :: waf_scope
  fw_default :: waf_action
  fw_allow_list :: "string list"
  role_trust :: "string list"
  role_policies :: "string list"
  fn_memory :: nat
  fn_timeout :: nat

definition observe :: "ctree_c \<Rightarrow> us_region_stack \<Rightarrow> stack_contract option" where
  "observe t s =
     (case wafAttrArn s of GetAtt acl _ \<Rightarrow>
      (case res_at t acl of
         Some (CfnWebACLR sc dflt ip) \<Rightarrow>
           (case res_at t ip of
              Some (CfnIPSetR _ addrs) \<Rightarrow>
                (case res_at t (edgeFnVersion s) of
                   Some (VersionR f) \<Rightarrow>
                     (case (res_at t f, res_at t (f @ [''Resource''])) of
                        (Some (FunctionR _ (Some v)), Some (CfnFunctionR c)) \<Rightarrow>
                          if v \<noteq> edgeFnVersion s then None
                          else (case res_at t (cfnRole c @ [''Resource'']) of
                             Some (CfnRoleR svcs arns) \<Rightarrow>
                               Some \<lparr>fw_scope = sc, fw_default = dflt, fw_allow_list = addrs,
                                     role_trust = svcs, role_policies = arns,
                                     fn_memory = cfnMemorySize c, fn_timeout = cfnTimeout c\<rparr>
                           | _ \<Rightarrow> None)
                      | _ \<Rightarrow> None)
                 | _ \<Rightarrow> None)
            | _ \<Rightarrow> None)
       | _ \<Rightarrow> None))"

definition meets_spec :: "dev_config \<Rightarrow> stack_contract \<Rightarrow> bool" where
  "meets_spec cfg c \<longleftrightarrow>
     fw_allow_list c = cfgAllowedIps cfg \<and> fw_scope c = CLOUDFRONT \<and> fw_default c = Block \<and>
     length (remdups (role_trust c)) = 2 \<and> length (remdups (role_policies c)) = 2 \<and>
     fn_memory c = 1024 \<and> fn_timeout c = 5"

end
