(* ===== verification/Stack_Order.thy ===== *)
theory Stack_Order
  imports Us_Region_Stack
begin

text \<open>
  The order of the statements of the constructor. The source calls
  \<open>NagSuppressions.addResourceSuppressions\<close> last, after the function and its version.
  \<open>us_region_stack_new_suppress_first\<close> is the same constructor with that call moved
  directly after \<open>new Role\<close>. At every fresh site both orders return the same stack and
  the same tree: creating the function and reading \<open>currentVersion\<close> neither add a
  construct below the role nor touch its metadata.
\<close>

definition us_region_stack_new_suppress_first ::
  "dev_config \<Rightarrow> ctree_c \<Rightarrow> cpath \<Rightarrow> string \<Rightarrow> stack_props \<Rightarrow> cdk_error + (us_region_stack \<times> ctree_c)" where
  "us_region_stack_new_suppress_first devConfig t scope nid props =
     bindE (stack_new t scope nid props) (\<lambda>(this, t1).
     bindE (waf_new t1 this (nid @ ''-CloudFrontFireWall'') (cloudfront_waf_props devConfig)) (\<lambda>((wafv2, webAcl), t2).
     let wafAttrArn = GetAtt webAcl ''Arn'' in
     bindE (role_new t2 this (nid @ ''-LambdaEdgeFunctionRole'') edge_fn_role_props) (\<lambda>(edgeFnRole, t3).
     bindE (add_resource_suppressions t3 [edgeFnRole] edge_fn_role_suppressions True) (\<lambda>t4.
     bindE (nodejs_function_new t4 this (nid @ ''-LambdaEdgeFunction'') (edge_fn_props edgeFnRole)) (\<lambda>(lambdaEdgeFunction, t5).
     bindE (current_version t5 lambdaEdgeFunction) (\<lambda>(edgeFnVersion, t6).
     Inr (\<lparr>stackPath = this, wafAttrArn = wafAttrArn, edgeFnVersion = edgeFnVersion\<rparr>, t6)))))))"

lemma us_region_stack_new_suppress_first_site:
  assumes site: "fresh_stack_site t scope nid props"
  shows "us_region_stack_new_suppress_first cfg t scope nid props =
    Inr (\<lparr>stackPath = scope @ [sanitize_id nid],
          wafAttrArn = GetAtt (scope @ [sanitize_id nid, sanitize_id nid @ ''-CloudFrontFireWall'', ''WebAcl'']) ''Arn'',
          edgeFnVersion = scope @ [sanitize_id nid, sanitize_id nid @ ''-LambdaEdgeFunction'', ''CurrentVersion'']\<rparr>,
         t @ us_region_description cfg (scope @ [sanitize_id nid]) (sanitize_id nid) (stack_name_of scope nid props) (region props))"
proof -
  have wf: "ctree_wf t" and sc: "scope \<in> set (paths t)" and ne: "nid \<noteq> []"
    and fresh: "scope @ [sanitize_id nid] \<notin> set (paths t)"
    and name: "stack_name_ok (stack_name_of scope nid props)"
    using site by (simp_all add: fresh_stack_site_def)
  let ?sp = "scope @ [sanitize_id nid]"
  have below: "\<And>q. prefix ?sp q \<Longrightarrow> q \<notin> set (paths t)"
    using fresh_stack_site_below [OF site] .
  have below_lookup: "\<And>q. prefix ?sp q \<Longrightarrow> lookup t q = None"
    using below by (simp add: lookup_None_iff)
  have below_find: "\<And>q. prefix ?sp q \<Longrightarrow> find_all t q = []"
    using below wf by (simp add: find_all_fresh)
  have below_upd: "\<And>q g. prefix ?sp q \<Longrightarrow> update_node t q g = t"
    using below by (simp add: update_node_fresh)
  show ?thesis
    unfolding us_region_stack_new_suppress_first_def
    using sc ne fresh name
    apply (simp add: stack_new_fresh)
    apply (subst waf_new_fresh)
    apply (simp_all add: paths_append below)
    apply (subst role_new_fresh)
    apply (simp_all add: paths_append below)
    apply (simp add: add_resource_suppressions_def below_upd below_find tree_simps)
    apply (simp add: suppress_one_def default_child_def below_lookup res_at_def below_upd tree_simps Let_def
        edge_fn_role_suppressions_valid)
    apply (subst nodejs_function_new_fresh)
    apply (simp_all add: paths_append below edge_fn_props_def js_entry_def js_entry_extensions_def)
    apply (subst current_version_fresh)
    apply (simp_all add: paths_append below res_at_def lookup_append below_lookup mk_node_def)
    apply (simp add: us_region_description_def mk_node_def add_rules_self add_rules_distinct_new edge_fn_role_suppressions_distinct Let_def edge_fn_props_def tree_simps below_upd)
    done
qed

end
