(* ===== verification/Spec2Isabelle.thy ===== *)
theory Spec2Isabelle
  imports Construct_Refs Nag_Loop Stack_Deploy Stack_Contract Stack_Order
begin

text \<open>
  \<^bold>\<open>What is verified.\<close> The repository has one program file, \<open>src/lib/us-region-stack.ts\<close>:
  the AWS CDK stack \<open>UsRegionStack\<close>, whose constructor assembles a deployment description
  of a CloudFront web application firewall, an IAM execution role and a Lambda@Edge
  function, exposes the firewall's ARN (\<open>wafAttrArn\<close>) and the function's published
  version (\<open>edgeFnVersion\<close>) to a sibling stack, and silences two cdk-nag rules on the
  role. The constructor does nothing but call library constructors in sequence; what it
  produces is the construct tree those calls build. The development therefore models the
  construct tree and the part of each library the constructor relies on, and proves what
  the assembled description contains.

  \<^bold>\<open>Theories.\<close>
  \<^item> \<open>Prelude\<close>: paths, the exception-propagating bind \<open>bindE\<close> on \<open>'e + 'a\<close>
    (a TypeScript statement that may throw), \<open>foldE\<close> (a \<open>for\<close> loop that may throw),
    \<open>first_error\<close> (the first exception of a sequence of checks), list and
    association-list lemmas.
  \<^item> \<open>Construct_Tree\<close>: the \<open>constructs\<close> library's \<open>Node\<close>. The tree is an association
    list from paths to payloads in creation order; \<open>add_child\<close> is \<open>new C(scope, id)\<close>
    (sanitised id, empty id and duplicate id throw), \<open>update_node\<close> a change in place,
    \<open>find_all\<close> is \<open>node.findAll()\<close>. Well-formedness \<open>ctree_wf\<close> (unique paths, parents
    present, non-empty ids) is kept by \<open>add_child\<close> and makes the tree prefix-closed.
  \<^item> \<open>Resources\<close>: the payloads (props records of every construct the stack creates,
    CloudFormation properties of their level-1 children, the function's code asset and its
    staging) and the exceptions \<open>cdk_error\<close>.
  \<^item> \<open>Iam\<close>: \<open>new Role\<close>, its trust policy (\<open>can_assume\<close>) and managed-policy ARNs.
  \<^item> \<open>Lambda\<close>: \<open>new NodejsFunction\<close> (runtime check, JavaScript or TypeScript entry
    check, \<open>index.\<close> handler prefix, connection-reuse variable, the code asset \<open>Code\<close> with
    its \<open>Stage\<close> that \<open>code.bind(this)\<close> creates, \<open>Duration.toSeconds\<close>), the memoised
    \<open>currentVersion\<close> getter, and the Lambda@Edge quotas.
  \<^item> \<open>Nag\<close>: \<open>NagSuppressions.addResourceSuppressions\<close> (default child, validation of
    each suppression, de-duplicating merge of the \<open>cdk_nag\<close> metadata,
    \<open>applyToChildren\<close>) and the rule AwsSolutions-IAM4.
  \<^item> \<open>Nag_Loop\<close>: the loop of \<open>addResourceSuppressions\<close> computed in one pass. It
    visits the constructs \<open>suppression_visits\<close> lists. It throws the \<open>visit_error\<close> of the
    first visit that throws (a construct with both a \<open>Resource\<close> and a \<open>Default\<close> child,
    or a CloudFormation target with an invalid suppression); otherwise it marks the
    \<open>default_target\<close> of every visit (\<open>suppress_marked\<close>). When no CloudFormation resource
    has children it equals the reference \<open>suppress_below\<close>.
  \<^item> \<open>Waf\<close>: the repository's \<open>Waf\<close> construct and \<open>devConfig\<close>, which live outside
    \<open>src/\<close> and are modelled from the specification: an IP set with exactly the
    allow-list and a web ACL that allows it and blocks the rest; \<open>waf_allows\<close> evaluates
    a web ACL and \<open>config_allows\<close> is the promise it refines.
  \<^item> \<open>Us_Region_Stack\<close>: \<open>cdk.Stack\<close> (the stack's name, from \<open>props.stackName\<close> or the
    sanitised id, and its two checks; the region of \<open>props.env\<close> is stored in the stack)
    and the constructor itself, \<open>us_region_stack_new\<close>, one step per statement of lines
    22--73 in the source's order; the props objects of lines 25--28, 32--43, 44--56 and
    59--72 are the definitions \<open>cloudfront_waf_props\<close>, \<open>edge_fn_role_props\<close>,
    \<open>edge_fn_props\<close> and \<open>edge_fn_role_suppressions\<close>. \<open>us_region_stack_new_eq\<close> computes a
    run at any \<open>fresh_stack_site\<close> (well-formed tree, existing scope, new non-empty id, a
    stack name that passes the checks): it returns and appends the twelve constructs of
    \<open>us_region_description\<close>.
  \<^item> \<open>Construct_Refs\<close>: the typing judgement \<open>refs_ok\<close> of the references between
    constructs (web ACL to IP set, function to role and version, version to function).
  \<^item> \<open>Deploy\<close>: how CloudFormation deploys a description. \<open>cfn_deps\<close> lists the
    references of a resource (web ACL to IP set, function to role, version to function),
    \<open>stack_template\<close> is the template of a stack, and \<open>deploy_step\<close> creates one
    resource whose references exist. Every reachable state is closed under the
    references; no deployment runs forever; a template with a creation order never gets
    stuck.
  \<^item> \<open>Stack_Deploy\<close>: the CloudFormation resources of the stack at a fresh site, their
    creation order, and the references they satisfy.
  \<^item> \<open>Stack_Contract\<close>: the contract of the specification's testable properties.
    \<open>observe\<close> is what a consumer holding only \<open>wafAttrArn\<close> and \<open>edgeFnVersion\<close>
    sees by following references; \<open>meets_spec\<close> is the contract in the specification's
    words.
  \<^item> \<open>Stack_Order\<close>: the constructor with the suppression call moved directly after
    \<open>new Role\<close>, evaluated at a fresh site.
  \<^item> this theory: the properties of the whole constructor, the examples their witnesses
    run on, and the findings.

  \<^bold>\<open>Properties.\<close> Of the whole constructor, in this theory:
  \<^item> C1: the role trusts exactly the Lambda and Lambda@Edge principals and attaches
    exactly two managed policies;
  \<^item> C2: the function's memory, timeout, runtime, handler and role;
  \<^item> C3: the firewall is CloudFront-scoped and admits exactly the allow-list;
  \<^item> C4: the stack adds no unsuppressed IAM4 finding;
  \<^item> C5: the exposed version is the function's own cached version;
  \<^item> C6: the suppressions reach the role's resource only;
  \<^item> C7: the function meets the Lambda@Edge origin quotas;
  \<^item> C8: a second stack whose id sanitises to the same string throws;
  \<^item> C9: an invalid \<open>props.stackName\<close> throws before any resource is created.
  In the component theories: C10 \<open>waf_new\<close> refines \<open>config_allows\<close> (\<open>Waf\<close>); C11
  \<open>currentVersion\<close> is memoised (\<open>Lambda\<close>); C12 a duplicate id throws in \<open>add_child\<close>
  (\<open>Construct_Tree\<close>); C13 \<open>addResourceSuppressions\<close> is idempotent (\<open>Nag_Loop\<close>). C14
  (here): the constructor is deterministic and independent of the rest of the tree. In
  \<open>Nag_Loop\<close>:
  \<^item> C15: with valid suppressions, \<open>addResourceSuppressions\<close> refines \<open>suppress_below\<close>;
  \<^item> C16: it throws exactly on an empty array or at the first visit that throws;
  \<^item> C17: every resource reads back the suppressions written to it;
  \<^item> C18: it keeps the metadata free of duplicates.
  In \<open>Lambda\<close>, C19: of its pure checks, \<open>new NodejsFunction\<close> throws exactly on a
  non-Node runtime, a non-JavaScript entry, an \<open>addChild\<close> error or a timeout that is not
  a whole number of seconds, in that order. Back here:
  \<^item> C20: the constructor keeps the references between constructs well typed;
  \<^item> C21: every state of a deployment of the result respects the references;
  \<^item> C22: a deployment of the stack's template always completes;
  \<^item> C23: the stack's template can be deployed completely from nothing;
  \<^item> C24: the template holds exactly the five CloudFormation resources of the
    specification's end-to-end scenario;
  \<^item> C25: a second stack with a different id coexists with the first;
  \<^item> C26: the constructor refines the contract, as \<open>observe\<close> sees it;
  \<^item> C27: the suppression call may equally come directly after \<open>new Role\<close>.

  \<^bold>\<open>Findings.\<close> The constructor can throw at construction time (C8, C9), whereas the
  specification says this unit performs no validation; the function can serve CloudFront
  origin events only: its 1024 MB exceed the 128 MB quota of viewer events (C2); nothing
  ensures the \<open>us-east-1\<close> region that a CloudFront web ACL and a Lambda@Edge function
  require: \<open>props.env.region\<close> is stored in the stack and never compared; the
  suppressions justify the role as least privilege while it attaches
  \<open>AWSLambda_FullAccess\<close> (C1); two stacks with different ids such as \<open>Edge/Stack\<close> and
  \<open>Edge--Stack\<close> collide, because the construct library replaces \<open>/\<close> by \<open>--\<close> in ids
  (C8).

  Each property with a hypothesis has a witness at the example app (an \<open>App\<close> with the stack
  id \<open>UsRegionStack\<close> and one allow-listed network).

  \<^bold>\<open>Not modelled.\<close>
  \<^item> Synthesis to a CloudFormation template (logical ids, hashes of versions, tokens).
  \<^item> The file system: bundling of the function's code with esbuild, the existence of the
    entry file and the search for a dependency lock file (\<open>NodejsFunction\<close> throws when
    either is missing; the model takes both as found).
  \<^item> Stack names generated by \<open>makeUniqueResourceName\<close> (a stack below another construct,
    or with a sanitised id longer than 128 characters): they are built from an MD5 hash of
    the path, and the model records them as \<open>None\<close> and takes their checks as passed.
  \<^item> An explicit \<open>node.defaultChild\<close> override; \<open>default_child\<close> looks only for the
    children \<open>Resource\<close> and \<open>Default\<close>, which is what the constructs of this stack use.
  \<^item> The order of \<open>node.findAll()\<close>: cdk walks the tree in pre-order, the model in creation
    order. Both visit the same constructs, and the results of the loop are the same except
    which error is reported first when several visits throw.
  \<^item> The \<open>appliesTo\<close> field of a suppression, the other cdk-nag rules, and what the cloud
    does at deployment time beyond the order of creation (\<open>Deploy\<close> models only that
    order).
  No loop of the program is unbounded: all definitions are structurally recursive, so no
  fuel is needed.
\<close>

definition example_app :: ctree_c where
  "example_app = root_tree (mk_node AppR)"

definition example_config :: dev_config where
  "example_config = \<lparr>cfgAllowedIps = [''192.0.2.0/24'']\<rparr>"

definition example_app2 :: ctree_c where
  "example_app2 = [([], mk_node AppR), ([''Other''], mk_node (StackR (Some ''Other'') None))]"

lemma example_app_wf: "ctree_wf example_app"
  by (simp add: example_app_def root_tree_wf)

lemma example_site: "fresh_stack_site example_app [] ''UsRegionStack'' no_stack_props"
  by (simp add: fresh_stack_site_def example_app_def root_tree_wf stack_name_of_def stack_name_ok_def no_stack_props_def
      valid_stack_name_def is_ascii_letter_def is_ascii_digit_def)

lemma example_site2: "fresh_stack_site example_app2 [] ''UsRegionStack'' no_stack_props"
  by (simp add: fresh_stack_site_def example_app2_def ctree_wf_def paths_def stack_name_of_def stack_name_ok_def no_stack_props_def
      valid_stack_name_def is_ascii_letter_def is_ascii_digit_def)

lemma example_site_slash: "fresh_stack_site example_app [] ''Edge/Stack'' no_stack_props"
  by (simp add: fresh_stack_site_def example_app_def root_tree_wf stack_name_of_def stack_name_ok_def no_stack_props_def
      valid_stack_name_def is_ascii_letter_def is_ascii_digit_def)

lemma example_site_second: "fresh_stack_site example_app [] ''UsRegionStack2'' no_stack_props"
  by (simp add: fresh_stack_site_def example_app_def root_tree_wf stack_name_of_def stack_name_ok_def no_stack_props_def
      valid_stack_name_def is_ascii_letter_def is_ascii_digit_def)

lemma example_run:
  "\<exists>s t'. us_region_stack_new example_config example_app [] ''UsRegionStack'' no_stack_props = Inr (s, t')"
  using us_region_stack_new_site [OF example_site] by blast

text \<open>C1. The execution role of the edge function trusts exactly the two service principals \<open>lambda.amazonaws.com\<close> and \<open>edgelambda.amazonaws.com\<close> and attaches exactly the two AWS managed policies, whatever the allow-list and the stack props.\<close>

theorem edge_role_trust:
  assumes "fresh_stack_site t scope nid props"
  shows "\<exists>s t' rr. us_region_stack_new cfg t scope nid props = Inr (s, t') \<and>
    res_at t' (stackPath s @ [sanitize_id nid @ ''-LambdaEdgeFunctionRole'', ''Resource'']) = Some rr \<and>
    (\<forall>svc. can_assume rr svc \<longleftrightarrow> svc = ''lambda.amazonaws.com'' \<or> svc = ''edgelambda.amazonaws.com'') \<and>
    role_policy_arns rr = [aws_policy_prefix @ ''service-role/AWSLambdaBasicExecutionRole'',
                           aws_policy_prefix @ ''AWSLambda_FullAccess'']"
  using assms by (simp add: site_simps edge_fn_role_props_def aws_managed_policy_arn_def)

theorem edge_role_trust_witness:
  "fresh_stack_site example_app [] ''UsRegionStack'' no_stack_props \<and>
   (\<exists>s t' rr. us_region_stack_new example_config example_app [] ''UsRegionStack'' no_stack_props = Inr (s, t') \<and>
    res_at t' (stackPath s @ [sanitize_id ''UsRegionStack'' @ ''-LambdaEdgeFunctionRole'', ''Resource'']) = Some rr \<and>
    (\<forall>svc. can_assume rr svc \<longleftrightarrow> svc = ''lambda.amazonaws.com'' \<or> svc = ''edgelambda.amazonaws.com'') \<and>
    role_policy_arns rr = [aws_policy_prefix @ ''service-role/AWSLambdaBasicExecutionRole'',
                           aws_policy_prefix @ ''AWSLambda_FullAccess''])"
  using example_site edge_role_trust [OF example_site] by (rule conjI)

text \<open>C2. The synthesised edge function has 1024 MB of memory, a 5 s timeout, the \<open>nodejs22.x\<close> runtime, the handler \<open>index.handler\<close>, and runs under the role the stack created.\<close>

theorem edge_function_config:
  assumes "fresh_stack_site t scope nid props"
  shows "\<exists>s t' c. us_region_stack_new cfg t scope nid props = Inr (s, t') \<and>
    res_at t' (stackPath s @ [sanitize_id nid @ ''-LambdaEdgeFunction'', ''Resource'']) = Some (CfnFunctionR c) \<and>
    cfnMemorySize c = 1024 \<and> cfnTimeout c = 5 \<and> cfnRuntime c = ''nodejs22.x'' \<and>
    cfnHandler c = ''index.handler'' \<and> res_at t' (cfnRole c) = Some (RoleR edge_fn_role_props)"
  using assms by (simp add: site_simps edge_fn_props_def cfn_function_of_def nodejs_handler_def)

theorem edge_function_config_witness:
  "fresh_stack_site example_app [] ''UsRegionStack'' no_stack_props \<and>
   (\<exists>s t' c. us_region_stack_new example_config example_app [] ''UsRegionStack'' no_stack_props = Inr (s, t') \<and>
    res_at t' (stackPath s @ [sanitize_id ''UsRegionStack'' @ ''-LambdaEdgeFunction'', ''Resource'']) = Some (CfnFunctionR c) \<and>
    cfnMemorySize c = 1024 \<and> cfnTimeout c = 5 \<and> cfnRuntime c = ''nodejs22.x'' \<and>
    cfnHandler c = ''index.handler'' \<and> res_at t' (cfnRole c) = Some (RoleR edge_fn_role_props))"
  using example_site edge_function_config [OF example_site] by (rule conjI)

text \<open>C3. The exposed \<open>wafAttrArn\<close> is the ARN of a CloudFront-scoped web ACL that blocks by default and allows the IP set holding exactly the configured allow-list; so the firewall admits an address iff it is on the allow-list.\<close>

theorem cloudfront_waf_allow_list:
  assumes "fresh_stack_site t scope nid props"
  shows "\<exists>s t' acl ip. us_region_stack_new cfg t scope nid props = Inr (s, t') \<and>
    wafAttrArn s = GetAtt acl ''Arn'' \<and>
    res_at t' acl = Some (CfnWebACLR CLOUDFRONT Block ip) \<and>
    res_at t' ip = Some (CfnIPSetR CLOUDFRONT (cfgAllowedIps cfg)) \<and>
    (\<forall>addr. waf_allows t' acl addr \<longleftrightarrow> addr \<in> set (cfgAllowedIps cfg))"
  using assms by (simp add: site_simps cloudfront_waf_props_def waf_scope_of_def waf_allows_def)

theorem cloudfront_waf_allow_list_witness:
  "fresh_stack_site example_app [] ''UsRegionStack'' no_stack_props \<and>
   (\<exists>s t' acl ip. us_region_stack_new example_config example_app [] ''UsRegionStack'' no_stack_props = Inr (s, t') \<and>
    wafAttrArn s = GetAtt acl ''Arn'' \<and>
    res_at t' acl = Some (CfnWebACLR CLOUDFRONT Block ip) \<and>
    res_at t' ip = Some (CfnIPSetR CLOUDFRONT (cfgAllowedIps example_config)) \<and>
    (\<forall>addr. waf_allows t' acl addr \<longleftrightarrow> addr \<in> set (cfgAllowedIps example_config)))"
  using example_site cloudfront_waf_allow_list [OF example_site] by (rule conjI)

text \<open>C4. The stack adds no unsuppressed finding of rule AwsSolutions-IAM4: the only resource attaching AWS managed policies, the role, carries a valid IAM4 suppression.\<close>

theorem iam4_suppressed:
  assumes "fresh_stack_site t scope nid props"
  shows "\<exists>s t'. us_region_stack_new cfg t scope nid props = Inr (s, t') \<and> iam4_findings t' = iam4_findings t"
  using assms
  by (simp add: us_region_stack_new_site iam4_findings_def,
      simp add: us_region_description_def Let_def mk_node_def iam4_applies_def suppresses_def
        edge_fn_role_suppressions_def)

theorem iam4_suppressed_witness:
  "fresh_stack_site example_app [] ''UsRegionStack'' no_stack_props \<and>
   (\<exists>s t'. us_region_stack_new example_config example_app [] ''UsRegionStack'' no_stack_props = Inr (s, t') \<and> iam4_findings t' = iam4_findings example_app)"
  using example_site iam4_suppressed [OF example_site] by (rule conjI)

text \<open>C5. The exposed \<open>edgeFnVersion\<close> is the version construct of the edge function itself: it is the child \<open>CurrentVersion\<close> of that function, its \<open>AWS::Lambda::Version\<close> names that function, the function caches it, and reading \<open>currentVersion\<close> again returns it without changing the tree.\<close>

theorem edge_version_of_function:
  assumes "fresh_stack_site t scope nid props"
  shows "\<exists>s t' f. us_region_stack_new cfg t scope nid props = Inr (s, t') \<and>
    f = stackPath s @ [sanitize_id nid @ ''-LambdaEdgeFunction''] \<and>
    edgeFnVersion s = f @ [''CurrentVersion''] \<and>
    res_at t' (edgeFnVersion s) = Some (VersionR f) \<and>
    res_at t' (edgeFnVersion s @ [''Resource'']) = Some (CfnVersionR f) \<and>
    (\<exists>p. res_at t' f = Some (FunctionR p (Some (edgeFnVersion s)))) \<and>
    current_version t' f = Inr (edgeFnVersion s, t')"
  using assms by (simp add: site_simps current_version_def)

theorem edge_version_of_function_witness:
  "fresh_stack_site example_app [] ''UsRegionStack'' no_stack_props \<and>
   (\<exists>s t' f. us_region_stack_new example_config example_app [] ''UsRegionStack'' no_stack_props = Inr (s, t') \<and>
    f = stackPath s @ [sanitize_id ''UsRegionStack'' @ ''-LambdaEdgeFunction''] \<and>
    edgeFnVersion s = f @ [''CurrentVersion''] \<and>
    res_at t' (edgeFnVersion s) = Some (VersionR f) \<and>
    res_at t' (edgeFnVersion s @ [''Resource'']) = Some (CfnVersionR f) \<and>
    (\<exists>p. res_at t' f = Some (FunctionR p (Some (edgeFnVersion s)))) \<and>
    current_version t' f = Inr (edgeFnVersion s, t'))"
  using example_site edge_version_of_function [OF example_site] by (rule conjI)

text \<open>C6. With \<open>applyToChildren = true\<close> the two suppressions land on the role's \<open>AWS::IAM::Role\<close> and on no other new construct: the function, its version and the firewall carry no cdk-nag metadata.\<close>

theorem suppressions_on_role_only:
  assumes "fresh_stack_site t scope nid props"
  shows "\<exists>s t'. us_region_stack_new cfg t scope nid props = Inr (s, t') \<and>
    (\<forall>(q, n) \<in> set (drop (length t) t').
       nagMetadata n = (if q = stackPath s @ [sanitize_id nid @ ''-LambdaEdgeFunctionRole'', ''Resource'']
                        then edge_fn_role_suppressions else []))"
  using assms by (simp add: site_simps)

theorem suppressions_on_role_only_witness:
  "fresh_stack_site example_app [] ''UsRegionStack'' no_stack_props \<and>
   (\<exists>s t'. us_region_stack_new example_config example_app [] ''UsRegionStack'' no_stack_props = Inr (s, t') \<and>
    (\<forall>(q, n) \<in> set (drop (length example_app) t').
       nagMetadata n = (if q = stackPath s @ [sanitize_id ''UsRegionStack'' @ ''-LambdaEdgeFunctionRole'', ''Resource'']
                        then edge_fn_role_suppressions else [])))"
  using example_site suppressions_on_role_only [OF example_site] by (rule conjI)

text \<open>C7. The edge function meets the Lambda@Edge quotas of an origin event: no environment variables (connection reuse is off), a timeout of at most 30 s and memory between 128 and 10240 MB.\<close>

theorem edge_origin_quotas:
  assumes "fresh_stack_site t scope nid props"
  shows "\<exists>s t' c. us_region_stack_new cfg t scope nid props = Inr (s, t') \<and>
    res_at t' (stackPath s @ [sanitize_id nid @ ''-LambdaEdgeFunction'', ''Resource'']) = Some (CfnFunctionR c) \<and>
    edge_origin_ok c"
  using assms by (simp add: site_simps edge_fn_props_def cfn_function_of_def edge_origin_ok_def)

theorem edge_origin_quotas_witness:
  "fresh_stack_site example_app [] ''UsRegionStack'' no_stack_props \<and>
   (\<exists>s t' c. us_region_stack_new example_config example_app [] ''UsRegionStack'' no_stack_props = Inr (s, t') \<and>
    res_at t' (stackPath s @ [sanitize_id ''UsRegionStack'' @ ''-LambdaEdgeFunction'', ''Resource'']) = Some (CfnFunctionR c) \<and>
    edge_origin_ok c)"
  using example_site edge_origin_quotas [OF example_site] by (rule conjI)

text \<open>C8. Constructing a second stack in the same scope throws the construct library's
  duplicate-id error, whatever its configuration, when its id equals the first one after
  sanitisation. This includes ids that differ, such as \<open>Edge/Stack\<close> and \<open>Edge--Stack\<close>.\<close>

theorem duplicate_stack_id:
  assumes "us_region_stack_new cfg t scope nid props = Inr (s, t')" and "sanitize_id nid' = sanitize_id nid"
  shows "us_region_stack_new cfg' t' scope nid' props' = Inl (TreeError (DuplicateId scope (sanitize_id nid)))"
proof -
  from us_region_stack_new_paths [OF assms(1)]
  have "scope \<in> set (paths t')" and "nid \<noteq> []" and "scope @ [sanitize_id nid] \<in> set (paths t')"
    by auto
  moreover from \<open>nid \<noteq> []\<close> assms(2) have "nid' \<noteq> []" by (metis sanitize_id_Nil_iff)
  ultimately have "add_child t' scope nid' (mk_node (StackR (stack_name_of scope nid' props') (region props'))) =
      Inl (DuplicateId scope (sanitize_id nid))"
    using assms(2) add_child_duplicate [of t' scope nid'] by (simp add: lookup_None_iff)
  then show ?thesis by (simp add: us_region_stack_new_def stack_new_def new_construct_def Let_def)
qed

theorem duplicate_stack_id_witness:
  "\<exists>s t'. us_region_stack_new example_config example_app [] ''Edge/Stack'' no_stack_props = Inr (s, t') \<and>
     sanitize_id ''Edge--Stack'' = sanitize_id ''Edge/Stack'' \<and>
     us_region_stack_new example_config t' [] ''Edge--Stack'' no_stack_props =
       Inl (TreeError (DuplicateId [] (sanitize_id ''Edge/Stack'')))"
proof -
  obtain s t' where run: "us_region_stack_new example_config example_app [] ''Edge/Stack'' no_stack_props = Inr (s, t')"
    using us_region_stack_new_site [OF example_site_slash] by blast
  have eq: "sanitize_id ''Edge--Stack'' = sanitize_id ''Edge/Stack''" by simp
  from duplicate_stack_id [OF run eq] run eq show ?thesis by blast
qed

text \<open>C9. A stack name given in \<open>props.stackName\<close> that does not match
  \<open>/^[A-Za-z][A-Za-z0-9-]*$/\<close> makes the constructor throw, with that name, before any
  firewall, role or function is created.\<close>

theorem invalid_stack_name:
  assumes "scope \<in> set (paths t)" and "nid \<noteq> []" and "scope @ [sanitize_id nid] \<notin> set (paths t)"
    and "stackName props = Some n" and "\<not> valid_stack_name n"
  shows "us_region_stack_new cfg t scope nid props = Inl (InvalidStackName n)"
  using assms by (simp add: us_region_stack_new_def stack_new_def stack_name_of_def new_construct_fresh Let_def)

theorem invalid_stack_name_witness:
  "stackName \<lparr>stackName = Some ''us_region'', region = None\<rparr> = Some ''us_region'' \<and>
   \<not> valid_stack_name ''us_region'' \<and>
   us_region_stack_new example_config example_app [] ''UsRegionStack'' \<lparr>stackName = Some ''us_region'', region = None\<rparr> =
     Inl (InvalidStackName ''us_region'')"
  using invalid_stack_name [where t = example_app and scope = "[]" and nid = "''UsRegionStack''"
      and props = "\<lparr>stackName = Some ''us_region'', region = None\<rparr>" and n = "''us_region''" and cfg = example_config]
  by (simp add: example_app_def valid_stack_name_def is_ascii_letter_def is_ascii_digit_def)

text \<open>C14. Construction is deterministic and independent of its context: at two fresh sites
  with the same scope, id and props, the constructor returns the same exposed values and
  appends the same constructs, whatever else the two trees hold.\<close>

theorem us_region_stack_deterministic:
  assumes "fresh_stack_site t1 scope nid props" and "fresh_stack_site t2 scope nid props"
  shows "\<exists>s t1' t2'. us_region_stack_new cfg t1 scope nid props = Inr (s, t1') \<and>
    us_region_stack_new cfg t2 scope nid props = Inr (s, t2') \<and>
    drop (length t1) t1' = drop (length t2) t2'"
  using assms by (simp add: us_region_stack_new_site)

theorem us_region_stack_deterministic_witness:
  "fresh_stack_site example_app [] ''UsRegionStack'' no_stack_props \<and>
   fresh_stack_site example_app2 [] ''UsRegionStack'' no_stack_props \<and>
   (\<exists>s t1' t2'. us_region_stack_new example_config example_app [] ''UsRegionStack'' no_stack_props = Inr (s, t1') \<and>
    us_region_stack_new example_config example_app2 [] ''UsRegionStack'' no_stack_props = Inr (s, t2') \<and>
    drop (length example_app) t1' = drop (length example_app2) t2')"
  using example_site example_site2 us_region_stack_deterministic [OF example_site example_site2] by blast

text \<open>C20. The constructor keeps the typing of references: if every reference in the tree
  leads to a construct of its type, then so does every reference in the tree it returns, in
  particular the web ACL's IP set, the function's role and cached version, the
  \<open>AWS::Lambda::Function\<close>'s role, and the version's function.\<close>

theorem us_region_stack_refs_ok:
  assumes "fresh_stack_site t scope nid props" and "refs_ok t"
  shows "\<exists>s t'. us_region_stack_new cfg t scope nid props = Inr (s, t') \<and> refs_ok t'"
proof -
  let ?D = "us_region_description cfg (scope @ [sanitize_id nid]) (sanitize_id nid) (stack_name_of scope nid props) (region props)"
  have "list_all (\<lambda>(p, n). ref_ok (t @ ?D) p (res n)) ?D"
    using assms(1) by (simp add: site_simps edge_fn_props_def cfn_function_of_def cfn_role_of_def)
  then have "refs_ok (t @ ?D)" using assms(2) by (rule refs_ok_append [rotated])
  then show ?thesis using us_region_stack_new_site [OF assms(1)] by simp
qed

theorem us_region_stack_refs_ok_witness:
  "fresh_stack_site example_app [] ''UsRegionStack'' no_stack_props \<and> refs_ok example_app \<and>
   (\<exists>s t'. us_region_stack_new example_config example_app [] ''UsRegionStack'' no_stack_props = Inr (s, t') \<and>
     refs_ok t')"
proof -
  have r: "refs_ok example_app" by (simp add: refs_ok_def example_app_def root_tree_def mk_node_def)
  show ?thesis using example_site r us_region_stack_refs_ok [OF example_site r] by blast
qed


text \<open>C21. Deployment respects the references the constructor wires: in every state a
  CloudFormation deployment of the synthesised tree can reach, the version exists only
  after its function, the function only after its role, and the web ACL only after its IP
  set.\<close>

theorem us_region_stack_deploy_order:
  assumes "fresh_stack_site t scope nid props"
  shows "\<exists>s t'. us_region_stack_new cfg t scope nid props = Inr (s, t') \<and>
    (\<forall>X. (deploy_step t')\<^sup>*\<^sup>* {} X \<longrightarrow>
       (edgeFnVersion s @ [''Resource''] \<in> X \<longrightarrow>
          stackPath s @ [sanitize_id nid @ ''-LambdaEdgeFunction'', ''Resource''] \<in> X) \<and>
       (stackPath s @ [sanitize_id nid @ ''-LambdaEdgeFunction'', ''Resource''] \<in> X \<longrightarrow>
          stackPath s @ [sanitize_id nid @ ''-LambdaEdgeFunctionRole'', ''Resource''] \<in> X) \<and>
       (stackPath s @ [sanitize_id nid @ ''-CloudFrontFireWall'', ''WebAcl''] \<in> X \<longrightarrow>
          stackPath s @ [sanitize_id nid @ ''-CloudFrontFireWall'', ''IpSet''] \<in> X))"
proof -
  let ?T = "t @ site_description cfg scope nid props"
  have d: "distinct (paths ?T)" using us_region_description_wf [OF assms] by (simp add: ctree_wf_def)
  have closed: "deps_closed ?T X" if "(deploy_step ?T)\<^sup>*\<^sup>* {} X" for X
    using deploy_steps_closed [OF d that] by simp
  show ?thesis
    using us_region_stack_new_site [OF assms] closed site_deps_closed [OF assms]
    by (simp add: Let_def) blast
qed

theorem us_region_stack_deploy_order_witness:
  "fresh_stack_site example_app [] ''UsRegionStack'' no_stack_props \<and>
   (\<exists>s t'. us_region_stack_new example_config example_app [] ''UsRegionStack'' no_stack_props = Inr (s, t') \<and>
    (\<forall>X. (deploy_step t')\<^sup>*\<^sup>* {} X \<longrightarrow>
       (edgeFnVersion s @ [''Resource''] \<in> X \<longrightarrow>
          stackPath s @ [sanitize_id ''UsRegionStack'' @ ''-LambdaEdgeFunction'', ''Resource''] \<in> X) \<and>
       (stackPath s @ [sanitize_id ''UsRegionStack'' @ ''-LambdaEdgeFunction'', ''Resource''] \<in> X \<longrightarrow>
          stackPath s @ [sanitize_id ''UsRegionStack'' @ ''-LambdaEdgeFunctionRole'', ''Resource''] \<in> X) \<and>
       (stackPath s @ [sanitize_id ''UsRegionStack'' @ ''-CloudFrontFireWall'', ''WebAcl''] \<in> X \<longrightarrow>
          stackPath s @ [sanitize_id ''UsRegionStack'' @ ''-CloudFrontFireWall'', ''IpSet''] \<in> X)))"
  using example_site us_region_stack_deploy_order [OF example_site] by (rule conjI)



text \<open>C23. The synthesised template can be deployed completely: starting from nothing,
  CloudFormation can create every CloudFormation resource of the new stack, since each
  resource the stack's resources reference is one of them.\<close>

theorem us_region_stack_deployable:
  assumes "fresh_stack_site t scope nid props"
  shows "\<exists>s t'. us_region_stack_new cfg t scope nid props = Inr (s, t') \<and>
    (deploy_step t')\<^sup>*\<^sup>* {} (set (cfn_resources t' (stackPath s)))"
  using us_region_stack_new_site [OF assms] site_deployable [OF assms] by simp

theorem us_region_stack_deployable_witness:
  "fresh_stack_site example_app [] ''UsRegionStack'' no_stack_props \<and>
   (\<exists>s t'. us_region_stack_new example_config example_app [] ''UsRegionStack'' no_stack_props = Inr (s, t') \<and>
    (deploy_step t')\<^sup>*\<^sup>* {} (set (cfn_resources t' (stackPath s))))"
  using example_site us_region_stack_deployable [OF example_site] by (rule conjI)

text \<open>C24. The template of the stack (the end-to-end scenario of the specification) holds
  exactly five CloudFormation resources: one IP set with exactly the allow-list and one web
  ACL, both scoped to CloudFront; one role; one function under that role; and one version
  of that function.\<close>

theorem us_region_stack_template:
  assumes "fresh_stack_site t scope nid props"
  shows "\<exists>s t'. us_region_stack_new cfg t scope nid props = Inr (s, t') \<and>
    map (res_at t') (cfn_resources t' (stackPath s)) =
      [Some (CfnIPSetR CLOUDFRONT (cfgAllowedIps cfg)),
       Some (CfnWebACLR CLOUDFRONT Block (stackPath s @ [sanitize_id nid @ ''-CloudFrontFireWall'', ''IpSet''])),
       Some (cfn_role_of edge_fn_role_props),
       Some (CfnFunctionR (cfn_function_of (edge_fn_props (stackPath s @ [sanitize_id nid @ ''-LambdaEdgeFunctionRole''])) 5)),
       Some (CfnVersionR (stackPath s @ [sanitize_id nid @ ''-LambdaEdgeFunction'']))]"
proof -
  have "map (res_at (t @ site_description cfg scope nid props))
      (cfn_resources (t @ site_description cfg scope nid props) (scope @ [sanitize_id nid])) =
      [Some (CfnIPSetR CLOUDFRONT (cfgAllowedIps cfg)),
       Some (CfnWebACLR CLOUDFRONT Block (scope @ [sanitize_id nid, sanitize_id nid @ ''-CloudFrontFireWall'', ''IpSet''])),
       Some (cfn_role_of edge_fn_role_props),
       Some (CfnFunctionR (cfn_function_of (edge_fn_props (scope @ [sanitize_id nid, sanitize_id nid @ ''-LambdaEdgeFunctionRole''])) 5)),
       Some (CfnVersionR (scope @ [sanitize_id nid, sanitize_id nid @ ''-LambdaEdgeFunction'']))]"
    unfolding site_cfn_resources [OF assms] using assms
    by (simp add: site_simps cloudfront_waf_props_def waf_scope_of_def)
  then show ?thesis using us_region_stack_new_site [OF assms] by simp
qed

theorem us_region_stack_template_witness:
  "fresh_stack_site example_app [] ''UsRegionStack'' no_stack_props \<and>
   (\<exists>s t'. us_region_stack_new example_config example_app [] ''UsRegionStack'' no_stack_props = Inr (s, t') \<and>
    map (res_at t') (cfn_resources t' (stackPath s)) =
      [Some (CfnIPSetR CLOUDFRONT (cfgAllowedIps example_config)),
       Some (CfnWebACLR CLOUDFRONT Block (stackPath s @ [sanitize_id ''UsRegionStack'' @ ''-CloudFrontFireWall'', ''IpSet''])),
       Some (cfn_role_of edge_fn_role_props),
       Some (CfnFunctionR (cfn_function_of (edge_fn_props (stackPath s @ [sanitize_id ''UsRegionStack'' @ ''-LambdaEdgeFunctionRole''])) 5)),
       Some (CfnVersionR (stackPath s @ [sanitize_id ''UsRegionStack'' @ ''-LambdaEdgeFunction'']))])"
  using example_site us_region_stack_template [OF example_site] by (rule conjI)

text \<open>C25. Two stacks in one scope: after a first stack is constructed, a second stack
  whose id is different after sanitisation, and whose site was fresh before, is
  constructed too. It leaves the constructs of the first stack as they were, below a
  different stack path.\<close>

theorem two_stacks_coexist:
  assumes "fresh_stack_site t scope nid props" and "us_region_stack_new cfg t scope nid props = Inr (s, t1)"
    and "fresh_stack_site t scope nid2 props2" and "sanitize_id nid2 \<noteq> sanitize_id nid"
  shows "\<exists>s2 t2. us_region_stack_new cfg2 t1 scope nid2 props2 = Inr (s2, t2) \<and>
    take (length t1) t2 = t1 \<and> stackPath s2 \<noteq> stackPath s"
proof -
  have t1: "t1 = t @ site_description cfg scope nid props" and sp: "stackPath s = scope @ [sanitize_id nid]"
    using us_region_stack_new_site [OF assms(1), of cfg] assms(2) by auto
  have "scope @ [sanitize_id nid2] \<notin> set (paths (site_description cfg scope nid props))"
    using assms(4) by (simp add: us_region_description_def Let_def paths_def)
  then have site2: "fresh_stack_site t1 scope nid2 props2"
    using assms(3) us_region_description_wf [OF assms(1), of cfg] unfolding t1
    by (simp add: fresh_stack_site_def paths_append paths_def)
  show ?thesis using us_region_stack_new_site [OF site2, of cfg2] sp assms(4) by simp
qed

theorem two_stacks_coexist_witness:
  "\<exists>s t1. fresh_stack_site example_app [] ''UsRegionStack'' no_stack_props \<and>
     us_region_stack_new example_config example_app [] ''UsRegionStack'' no_stack_props = Inr (s, t1) \<and>
     fresh_stack_site example_app [] ''UsRegionStack2'' no_stack_props \<and>
     sanitize_id ''UsRegionStack2'' \<noteq> sanitize_id ''UsRegionStack'' \<and>
     (\<exists>s2 t2. us_region_stack_new example_config t1 [] ''UsRegionStack2'' no_stack_props = Inr (s2, t2) \<and>
        take (length t1) t2 = t1 \<and> stackPath s2 \<noteq> stackPath s)"
proof -
  obtain s t1 where run: "us_region_stack_new example_config example_app [] ''UsRegionStack'' no_stack_props = Inr (s, t1)"
    using example_run by blast
  have ne: "sanitize_id ''UsRegionStack2'' \<noteq> sanitize_id ''UsRegionStack''" by simp
  show ?thesis
    using example_site run example_site_second ne
      two_stacks_coexist [OF example_site run example_site_second ne, of example_config]
    by blast
qed


text \<open>C26. The constructor refines the contract of the specification: following only the
  two exposed values through the synthesised tree, a consumer observes a firewall with
  exactly the configured allow-list, configured for CloudFront and denying everything else,
  a version of the very function it caches, a role that trusts exactly two identities and
  references exactly two managed policies, and a function with 1024 MB and a 5 s timeout.\<close>

theorem us_region_stack_meets_contract:
  assumes "fresh_stack_site t scope nid props"
  shows "\<exists>s t' c. us_region_stack_new cfg t scope nid props = Inr (s, t') \<and>
    observe t' s = Some c \<and> meets_spec cfg c"
  using assms
  by (simp add: site_simps observe_def meets_spec_def cloudfront_waf_props_def waf_scope_of_def
      edge_fn_props_def cfn_function_of_def cfn_role_of_def edge_fn_role_props_def
      aws_managed_policy_arn_def aws_policy_prefix_def)

theorem us_region_stack_meets_contract_witness:
  "fresh_stack_site example_app [] ''UsRegionStack'' no_stack_props \<and>
   (\<exists>s t' c. us_region_stack_new example_config example_app [] ''UsRegionStack'' no_stack_props = Inr (s, t') \<and>
    observe t' s = Some c \<and> meets_spec example_config c)"
  using example_site us_region_stack_meets_contract [OF example_site] by (rule conjI)

text \<open>C27. The order of the statements does not matter for the suppressions: moving
  \<open>NagSuppressions.addResourceSuppressions\<close> from the end of the constructor to directly
  after \<open>new Role\<close> gives, at every fresh site, the same stack and the same tree.\<close>

theorem suppression_order_irrelevant:
  assumes "fresh_stack_site t scope nid props"
  shows "us_region_stack_new_suppress_first cfg t scope nid props = us_region_stack_new cfg t scope nid props"
  using us_region_stack_new_suppress_first_site [OF assms] us_region_stack_new_site [OF assms] by simp

theorem suppression_order_irrelevant_witness:
  "fresh_stack_site example_app [] ''UsRegionStack'' no_stack_props \<and>
   us_region_stack_new_suppress_first example_config example_app [] ''UsRegionStack'' no_stack_props =
     us_region_stack_new example_config example_app [] ''UsRegionStack'' no_stack_props"
  using example_site suppression_order_irrelevant [OF example_site] by (rule conjI)

end
